theory Spec2Isabelle
  imports Complex_Main "HOL-Library.Sublist"
begin

section \<open>JavaScript values and outcomes of awaited calls\<close>

text \<open>
  The three screens of the repository are React Native components written in TypeScript:
  the video analyzer (\<open>src/unnamed/part_000\<close>, sampling driven by the progress of the
  player), the media analyzer (\<open>src/App.tsx\<close>, manual upload) and the live camera screen
  (\<open>src/unnamed/part_001\<close>, sampling driven by timers). Every one of their functions is a
  chain of calls to collaborators (permission API, file picker, transcoding engine, HTTP
  backend, file system, camera, recorder) glued by \<open>try\<close>/\<open>catch\<close> and React state
  setters. The embedding makes each of these explicit:
  \<^item> the value a parsed JSON body can be is a \<open>jsval\<close>;
  \<^item> what an awaited call yields is an \<open>outcome\<close>: it throws (the promise rejects) or
    returns;
  \<^item> the outcomes of the collaborators are read from an environment record, so that a
    theorem quantifies over everything the collaborators may answer;
  \<^item> every call to a collaborator, every console line and every alert is appended to an
    observable trace \<open>out\<close>;
  \<^item> React state is a record, and the setters update it;
  \<^item> an asynchronous function is a function from the world to the world that runs the
    whole sequence; where a handler calls one without awaiting it, the function is split
    into the part that runs at once and the rest, which stays in \<open>pending\<close> until it
    completes.
  Names are those of the source; the functions of the media analyzer carry the suffix
  \<open>_m\<close> and those of the camera screen the suffix \<open>_c\<close> where the name is already taken.
  Times are JavaScript numbers; they are modelled as reals with exact arithmetic.
\<close>

type_synonym err = string

datatype 'a outcome = Throws err | Returns 'a

datatype jsval =
    JUndefined
  | JNull
  | JBool bool
  | JNum real
  | JStr string
  | JArr "jsval list"
  | JObj "(string \<times> jsval) list"

text \<open>Truthiness, as \<open>||\<close> and \<open>if\<close> test it.\<close>

fun truthy :: "jsval \<Rightarrow> bool" where
  "truthy JUndefined = False"
| "truthy JNull = False"
| "truthy (JBool b) = b"
| "truthy (JNum n) = (n \<noteq> 0)"
| "truthy (JStr s) = (s \<noteq> [])"
| "truthy (JArr xs) = True"
| "truthy (JObj kvs) = True"

text \<open>\<open>a || b\<close>\<close>

definition or_else :: "jsval \<Rightarrow> jsval \<Rightarrow> jsval" where
  "or_else a b = (if truthy a then a else b)"

text \<open>
  \<open>result.key\<close> for a key that is not a built-in property of arrays, strings, numbers or
  booleans: reading a property of \<open>null\<close> or \<open>undefined\<close> throws a TypeError, an object
  gives the value stored under the key or \<open>undefined\<close>, every other value gives
  \<open>undefined\<close>.
\<close>

fun get_prop :: "string \<Rightarrow> jsval \<Rightarrow> jsval outcome" where
  "get_prop k JUndefined = Throws ''TypeError''"
| "get_prop k JNull = Throws ''TypeError''"
| "get_prop k (JObj kvs) = Returns (case map_of kvs k of None \<Rightarrow> JUndefined | Some v \<Rightarrow> v)"
| "get_prop k v = Returns JUndefined"

section \<open>Collaborators\<close>

text \<open>
  \<open>Platform.OS\<close>, \<open>Platform.Version\<close> and \<open>Dirs.CacheDir\<close> are constants of the device.
  The conversion of a number to text (in a template literal, and \<open>toFixed\<close>) belongs to the
  language runtime; it is a parameter of the model.
\<close>

record platform =
  OS :: string
  Version :: int
  CacheDir :: string
  num_toString :: "real \<Rightarrow> string"
  num_toFixed :: "nat \<Rightarrow> real \<Rightarrow> string"

datatype perm_status = GRANTED | DENIED | NEVER_ASK_AGAIN

record picked =
  uri :: string
  name :: string

text \<open>An FFmpegKit session: what \<open>getReturnCode\<close> and \<open>getLogsAsString\<close> yield.\<close>

record session =
  getReturnCode :: "int option outcome"
  getLogsAsString :: "string outcome"

text \<open>
  \<open>ReturnCode.isSuccess\<close> of ffmpeg-kit: there is a return code (a session that did not
  complete has none) and its value is 0.
\<close>

definition isSuccess :: "int option \<Rightarrow> bool" where
  "isSuccess rc = (rc = Some 0)"

text \<open>An HTTP response: its status and what \<open>response.json()\<close> yields.\<close>

record response =
  status :: nat
  json :: "jsval outcome"

text \<open>
  The environment gives the outcome of every call a function makes to a collaborator.
  \<open>PermissionsAndroid.requestMultiple\<close> resolves to an object with one status for each
  permission asked: its outcome is a function from the permission to its status.
\<close>

record env =
  permission_request :: "string \<Rightarrow> perm_status outcome"
  permission_requestMultiple :: "(string \<Rightarrow> perm_status) outcome"
  pick_result :: "picked list outcome"
  copy_result :: "string \<Rightarrow> unit outcome"
  ffmpeg_execute :: "string \<Rightarrow> session outcome"
  fetch_result :: "string \<Rightarrow> response outcome"
  unlink_result :: "string \<Rightarrow> unit outcome"
  camera_permission_result :: "string outcome"
  microphone_permission_result :: "string outcome"
  takePhoto_result :: "string outcome"
  audio_start_result :: "unit outcome"
  audio_stop_result :: "string outcome"

datatype logarg = LS string | LN real | LV jsval

datatype event =
    ConsoleLog "logarg list"
  | ConsoleError "logarg list"
  | AlertShown string string
  | PermissionRequest "string list"
  | Pick string
  | WriteFile string
  | Mkdir string
  | FFmpegExecute string
  | Fetch string string string string string
  | Unlink string
  | AudioRecordInit
  | AudioRecordStart
  | AudioRecordStop
  | TakePhoto
  | SetInterval nat nat
  | ClearInterval nat
  | SetTimeout nat

text \<open>
  An asynchronous function that is called without \<open>await\<close> runs up to its first
  suspension and leaves the rest of its body pending; the pending sequence keeps the
  values its closure captured.
\<close>

datatype task = CaptureFrame string real | ProcessAudioAtTime string real

record ('ui, 'k) world =
  ui :: 'ui
  out :: "event list"
  pending :: "'k list"

definition emit :: "event \<Rightarrow> ('ui, 'k) world \<Rightarrow> ('ui, 'k) world" where
  "emit e w = w\<lparr>out := out w @ [e]\<rparr>"

definition console_log :: "logarg list \<Rightarrow> ('ui, 'k) world \<Rightarrow> ('ui, 'k) world" where
  "console_log args = emit (ConsoleLog args)"

definition console_error :: "logarg list \<Rightarrow> ('ui, 'k) world \<Rightarrow> ('ui, 'k) world" where
  "console_error args = emit (ConsoleError args)"

definition alert :: "string \<Rightarrow> string \<Rightarrow> ('ui, 'k) world \<Rightarrow> ('ui, 'k) world" where
  "alert title msg = emit (AlertShown title msg)"

section \<open>The video analyzer (progress-driven variant)\<close>

text \<open>The state hooks of the component, with their initial values.\<close>

record app =
  videoUri :: "string option"
  processingStatus :: string
  audioClassification :: jsval
  imageClassification :: jsval
  lastFrameTime :: real
  lastAudioTime :: real
  isProcessing :: bool

type_synonym vworld = "(app, task) world"

definition app_init :: app where
  "app_init =
     \<lparr>videoUri = None, processingStatus = [], audioClassification = JStr [],
      imageClassification = JStr [], lastFrameTime = 0, lastAudioTime = 0,
      isProcessing = False\<rparr>"

definition world_init :: "vworld" where
  "world_init = \<lparr>ui = app_init, out = [], pending = []\<rparr>"

definition setVideoUri :: "string option \<Rightarrow> vworld \<Rightarrow> vworld" where
  "setVideoUri v w = w\<lparr>ui := (ui w)\<lparr>videoUri := v\<rparr>\<rparr>"

definition setProcessingStatus :: "string \<Rightarrow> vworld \<Rightarrow> vworld" where
  "setProcessingStatus v w = w\<lparr>ui := (ui w)\<lparr>processingStatus := v\<rparr>\<rparr>"

definition setAudioClassification :: "jsval \<Rightarrow> vworld \<Rightarrow> vworld" where
  "setAudioClassification v w = w\<lparr>ui := (ui w)\<lparr>audioClassification := v\<rparr>\<rparr>"

definition setImageClassification :: "jsval \<Rightarrow> vworld \<Rightarrow> vworld" where
  "setImageClassification v w = w\<lparr>ui := (ui w)\<lparr>imageClassification := v\<rparr>\<rparr>"

definition setLastFrameTime :: "real \<Rightarrow> vworld \<Rightarrow> vworld" where
  "setLastFrameTime v w = w\<lparr>ui := (ui w)\<lparr>lastFrameTime := v\<rparr>\<rparr>"

definition setLastAudioTime :: "real \<Rightarrow> vworld \<Rightarrow> vworld" where
  "setLastAudioTime v w = w\<lparr>ui := (ui w)\<lparr>lastAudioTime := v\<rparr>\<rparr>"

definition setIsProcessing :: "bool \<Rightarrow> vworld \<Rightarrow> vworld" where
  "setIsProcessing v w = w\<lparr>ui := (ui w)\<lparr>isProcessing := v\<rparr>\<rparr>"

definition BACKEND_URL :: "platform \<Rightarrow> string" where
  "BACKEND_URL P = (if OS P = ''android'' then ''http://10.0.2.2:6001'' else ''http://localhost:6001'')"

subsection \<open>Permissions and picking\<close>

definition openAppSettings :: "('ui, 'k) world \<Rightarrow> ('ui, 'k) world" where
  "openAppSettings =
     alert ''Permission Required''
       ''Storage permissions are required but have been permanently denied. Please enable them in app settings.''"

definition requestPermissions :: "platform \<Rightarrow> env \<Rightarrow> ('ui, 'k) world \<Rightarrow> ('ui, 'k) world \<times> bool" where
  "requestPermissions P E w =
     (if OS P \<noteq> ''android'' then (w, True)
      else if Version P \<ge> 33 then
        (let w1 = emit (PermissionRequest [''READ_MEDIA_VIDEO'']) w in
         case permission_request E ''READ_MEDIA_VIDEO'' of
           Throws e \<Rightarrow> (console_error [LS ''Permission error:'', LS e] w1, False)
         | Returns result \<Rightarrow>
             if result = GRANTED then (w1, True)
             else if result = NEVER_ASK_AGAIN then (openAppSettings w1, False)
             else (w1, False))
      else
        (let perms = [''READ_EXTERNAL_STORAGE'', ''WRITE_EXTERNAL_STORAGE''];
             w1 = emit (PermissionRequest perms) w in
         case permission_requestMultiple E of
           Throws e \<Rightarrow> (console_error [LS ''Permission error:'', LS e] w1, False)
         | Returns result \<Rightarrow> (w1, list_all (\<lambda>s. s = GRANTED) (map result perms))))"

text \<open>
  \<open>copyContentUriToLocal\<close>: the content is fetched, read and written to a file in the
  cache; any of these steps may throw, which the environment decides as one outcome.
\<close>

definition copyContentUriToLocal :: "platform \<Rightarrow> env \<Rightarrow> ('ui, 'k) world \<Rightarrow> string \<Rightarrow> ('ui, 'k) world \<times> string outcome" where
  "copyContentUriToLocal P E w originalUri =
     (let localPath = CacheDir P @ ''/input_video_temp.mp4'';
          w1 = console_log [LS ''Copying content URI => local path:'', LS originalUri, LS ''=>'', LS localPath] w in
      case copy_result E originalUri of
        Throws e \<Rightarrow> (w1, Throws e)
      | Returns _ \<Rightarrow> (emit (WriteFile localPath) w1, Returns (''file://'' @ localPath)))"

definition pickVideo_catch :: "err \<Rightarrow> ('ui, 'k) world \<Rightarrow> ('ui, 'k) world" where
  "pickVideo_catch e w = alert ''Error'' ''Failed to pick video.'' (console_error [LS ''Error picking video:'', LS e] w)"

definition pickVideo :: "platform \<Rightarrow> env \<Rightarrow> vworld \<Rightarrow> vworld" where
  "pickVideo P E w =
     (case requestPermissions P E w of
        (w1, hasPermission) \<Rightarrow>
          if \<not> hasPermission then
            alert ''Permission Denied'' ''Storage permission is required to select videos.'' w1
          else
            (let w2 = emit (Pick ''video/*'') w1 in
             case pick_result E of
               Throws e \<Rightarrow> pickVideo_catch e w2
             | Returns [] \<Rightarrow> w2
             | Returns (result # _) \<Rightarrow>
                 (case (if prefix ''content://'' (uri result)
                        then copyContentUriToLocal P E w2 (uri result)
                        else (w2, Returns (uri result))) of
                    (w3, Throws e) \<Rightarrow> pickVideo_catch e w3
                  | (w3, Returns finalUri) \<Rightarrow>
                      setLastAudioTime 0
                       (setLastFrameTime 0
                         (setImageClassification (JStr [])
                           (setAudioClassification (JStr [])
                             (setProcessingStatus (''Video selected: '' @ name result)
                               (setVideoUri (Some finalUri)
                                 (console_log [LS ''Picked video =>'', LS finalUri] w3)))))))))"

subsection \<open>Extraction and upload\<close>

text \<open>
  \<open>createSubdirectories\<close>: three \<open>mkdir\<close> calls, each in its own \<open>try\<close> with an empty
  \<open>catch\<close>, so their outcomes do not matter. It returns \<open>(framesDir, audioDir)\<close>.
\<close>

definition createSubdirectories :: "platform \<Rightarrow> ('ui, 'k) world \<Rightarrow> ('ui, 'k) world \<times> string \<times> string" where
  "createSubdirectories P w =
     (let baseDir = CacheDir P;
          videoProcessingDir = baseDir @ ''/video_processing'';
          framesDir = videoProcessingDir @ ''/frames'';
          audioDir = videoProcessingDir @ ''/audio''
      in (emit (Mkdir audioDir) (emit (Mkdir framesDir) (emit (Mkdir videoProcessingDir) w)),
          framesDir, audioDir))"

definition processVideoFrame :: "platform \<Rightarrow> env \<Rightarrow> vworld \<Rightarrow> string \<Rightarrow> vworld" where
  "processVideoFrame P E w framePath =
     (let catch = (\<lambda>e. console_error [LS ''Error processing video frame:'', LS e]);
          w1 = console_log [LS (''Sending frame to backend: '' @ framePath)] w;
          url = BACKEND_URL P @ ''/predict_image'';
          w2 = emit (Fetch url ''image_file'' (''file://'' @ framePath) ''image/jpeg'' ''frame.jpg'') w1
      in case fetch_result E url of
           Throws e \<Rightarrow> catch e w2
         | Returns response \<Rightarrow>
             (case json response of
                Throws e \<Rightarrow> catch e w2
              | Returns result \<Rightarrow>
                  (case get_prop ''classification'' result of
                     Throws e \<Rightarrow> catch e w2
                   | Returns c \<Rightarrow>
                       (let w3 = setImageClassification (or_else c (JStr ''No classification'')) w2;
                            w4 = console_log [LS ''Image classification result:'', LV result] w3;
                            w5 = emit (Unlink framePath) w4
                        in case unlink_result E framePath of
                             Throws e \<Rightarrow> catch e w5
                           | Returns _ \<Rightarrow> w5))))"

definition processAudioChunk :: "platform \<Rightarrow> env \<Rightarrow> vworld \<Rightarrow> string \<Rightarrow> vworld" where
  "processAudioChunk P E w audioPath =
     (let catch = (\<lambda>e. console_error [LS ''Error processing audio:'', LS e]);
          w1 = console_log [LS (''Sending audio chunk to backend: '' @ audioPath)] w;
          url = BACKEND_URL P @ ''/predict'';
          w2 = emit (Fetch url ''audio_file'' (''file://'' @ audioPath) ''audio/wav'' ''audio_chunk.wav'') w1
      in case fetch_result E url of
           Throws e \<Rightarrow> catch e w2
         | Returns response \<Rightarrow>
             (case json response of
                Throws e \<Rightarrow> catch e w2
              | Returns result \<Rightarrow>
                  (case get_prop ''classification'' result of
                     Throws e \<Rightarrow> catch e w2
                   | Returns c \<Rightarrow>
                       (let w3 = setAudioClassification (or_else c (JStr ''No classification'')) w2;
                            w4 = console_log [LS ''Audio classification result:'', LV result] w3;
                            w5 = emit (Unlink audioPath) w4
                        in case unlink_result E audioPath of
                             Throws e \<Rightarrow> catch e w5
                           | Returns _ \<Rightarrow> w5))))"

text \<open>
  \<open>captureFrame\<close> in two parts. \<open>captureFrame_sync\<close> is what a call does before it first
  suspends: the guard on \<open>videoUri\<close> (\<open>null\<close> and the empty string are falsy) and
  \<open>setIsProcessing(true)\<close>; it returns the pending rest, if any. \<open>captureFrame_rest\<close> is
  the rest of the \<open>try\<close> block, the \<open>catch\<close> and the \<open>finally\<close>. (The first suspension is
  inside \<open>createSubdirectories\<close>; the model suspends just before calling it.)
\<close>

definition captureFrame_sync :: "vworld \<Rightarrow> real \<Rightarrow> vworld \<times> string option" where
  "captureFrame_sync w time =
     (case videoUri (ui w) of
        None \<Rightarrow> (w, None)
      | Some u \<Rightarrow> if u = [] then (w, None) else (setIsProcessing True w, Some u))"

definition captureFrame_rest :: "platform \<Rightarrow> env \<Rightarrow> string \<Rightarrow> real \<Rightarrow> vworld \<Rightarrow> vworld" where
  "captureFrame_rest P E u time w =
     (let catch = (\<lambda>e. console_error [LS ''Error capturing frame:'', LS e]) in
      setIsProcessing False
       (case createSubdirectories P w of
          (w1, framesDir, audioDir) \<Rightarrow>
            (let framePath = framesDir @ ''/frame_'' @ num_toString P (of_int \<lfloor>time\<rfloor>) @ ''.jpg'';
                 w2 = setProcessingStatus (''Extracting frame at '' @ num_toFixed P 1 time @ ''s...'') w1;
                 cmd = ''-ss '' @ num_toString P time @ '' -i \"'' @ u @ ''\" -vframes 1 -q:v 2 \"'' @ framePath @ ''\"'';
                 w3 = console_log [LS ''FFmpeg command =>'', LS cmd] w2;
                 w4 = emit (FFmpegExecute cmd) w3
             in case ffmpeg_execute E cmd of
                  Throws e \<Rightarrow> catch e w4
                | Returns session \<Rightarrow>
                    (case getReturnCode session of
                       Throws e \<Rightarrow> catch e w4
                     | Returns returnCode \<Rightarrow>
                         (case getLogsAsString session of
                            Throws e \<Rightarrow> catch e w4
                          | Returns logs \<Rightarrow>
                              (let w5 = console_log [LS ''FFmpeg logs:\<newline>'', LS logs] w4 in
                               if isSuccess returnCode then processVideoFrame P E w5 framePath
                               else console_error [LS ''Failed to extract frame at time'', LN time] w5))))))"

definition captureFrame :: "platform \<Rightarrow> env \<Rightarrow> vworld \<Rightarrow> real \<Rightarrow> vworld" where
  "captureFrame P E w time =
     (case captureFrame_sync w time of
        (w1, None) \<Rightarrow> w1
      | (w1, Some u) \<Rightarrow> captureFrame_rest P E u time w1)"

text \<open>\<open>processAudioAtTime\<close>, split in the same way.\<close>

definition processAudioAtTime_sync :: "vworld \<Rightarrow> real \<Rightarrow> vworld \<times> string option" where
  "processAudioAtTime_sync w time =
     (case videoUri (ui w) of
        None \<Rightarrow> (w, None)
      | Some u \<Rightarrow> if u = [] then (w, None) else (setIsProcessing True w, Some u))"

definition processAudioAtTime_rest :: "platform \<Rightarrow> env \<Rightarrow> string \<Rightarrow> real \<Rightarrow> vworld \<Rightarrow> vworld" where
  "processAudioAtTime_rest P E u time w =
     (let catch = (\<lambda>e. console_error [LS ''Error processing audio chunk:'', LS e]) in
      setIsProcessing False
       (case createSubdirectories P w of
          (w1, framesDir, audioDir) \<Rightarrow>
            (let audioChunkPath = audioDir @ ''/chunk_'' @ num_toString P (of_int \<lfloor>time\<rfloor>) @ ''.wav'';
                 w2 = setProcessingStatus (''Extracting audio chunk at '' @ num_toFixed P 1 time @ ''s...'') w1;
                 cmd = ''-ss '' @ num_toString P time @ '' -i \"'' @ u
                         @ ''\" -t 2.5 -acodec pcm_s16le -ar 16000 -ac 1 \"'' @ audioChunkPath @ ''\"'';
                 w3 = console_log [LS ''FFmpeg command =>'', LS cmd] w2;
                 w4 = emit (FFmpegExecute cmd) w3
             in case ffmpeg_execute E cmd of
                  Throws e \<Rightarrow> catch e w4
                | Returns session \<Rightarrow>
                    (case getReturnCode session of
                       Throws e \<Rightarrow> catch e w4
                     | Returns returnCode \<Rightarrow>
                         (case getLogsAsString session of
                            Throws e \<Rightarrow> catch e w4
                          | Returns logs \<Rightarrow>
                              (let w5 = console_log [LS ''FFmpeg logs:\<newline>'', LS logs] w4 in
                               if isSuccess returnCode then processAudioChunk P E w5 audioChunkPath
                               else console_error [LS ''Failed to extract audio chunk at time'', LN time] w5))))))"

definition processAudioAtTime :: "platform \<Rightarrow> env \<Rightarrow> vworld \<Rightarrow> real \<Rightarrow> vworld" where
  "processAudioAtTime P E w time =
     (case processAudioAtTime_sync w time of
        (w1, None) \<Rightarrow> w1
      | (w1, Some u) \<Rightarrow> processAudioAtTime_rest P E u time w1)"

subsection \<open>The scheduling decision\<close>

text \<open>
  A call without \<open>await\<close>: the synchronous part has run, the rest (if any) is pending.
\<close>

definition call_async :: "('a \<Rightarrow> 'k) \<Rightarrow> ('ui, 'k) world \<times> 'a option \<Rightarrow> ('ui, 'k) world" where
  "call_async mk r =
     (case r of
        (w, None) \<Rightarrow> w
      | (w, Some a) \<Rightarrow> w\<lparr>pending := pending w @ [mk a]\<rparr>)"

text \<open>
  \<open>onVideoProgress\<close> reads \<open>lastFrameTime\<close> and \<open>lastAudioTime\<close> from the state of the
  render that created the handler, that is from \<open>w\<close>. It awaits nothing.
\<close>

definition onVideoProgress :: "platform \<Rightarrow> vworld \<Rightarrow> real \<Rightarrow> vworld" where
  "onVideoProgress P w currentTime =
     (let w0 = console_log [LS (''Video Progress => '' @ num_toFixed P 2 currentTime @ ''s'')] w;
          w1 = (if currentTime - lastFrameTime (ui w) \<ge> 1
                then setLastFrameTime currentTime
                       (call_async (\<lambda>u. CaptureFrame u currentTime) (captureFrame_sync w0 currentTime))
                else w0);
          w2 = (if currentTime - lastAudioTime (ui w) \<ge> 2.5
                then setLastAudioTime currentTime
                       (call_async (\<lambda>u. ProcessAudioAtTime u currentTime) (processAudioAtTime_sync w1 currentTime))
                else w1)
      in w2)"

text \<open>A pending sequence runs to its end, with the outcomes the environment gives.\<close>

fun resume :: "platform \<Rightarrow> env \<Rightarrow> task \<Rightarrow> vworld \<Rightarrow> vworld" where
  "resume P E (CaptureFrame u time) w = captureFrame_rest P E u time w"
| "resume P E (ProcessAudioAtTime u time) w = processAudioAtTime_rest P E u time w"

text \<open>The \<open>i\<close>-th pending sequence completes (nothing happens if there is none).\<close>

definition complete :: "platform \<Rightarrow> env \<Rightarrow> nat \<Rightarrow> vworld \<Rightarrow> vworld" where
  "complete P E i w =
     (if i < length (pending w)
      then resume P E (pending w ! i) (w\<lparr>pending := take i (pending w) @ drop (Suc i) (pending w)\<rparr>)
      else w)"

text \<open>
  What happens during a session: the player reports a position, or a pending sequence
  completes. A run is a sequence of such events.
\<close>

datatype input = Progress real | Completes nat env

fun step :: "platform \<Rightarrow> vworld \<Rightarrow> input \<Rightarrow> vworld" where
  "step P w (Progress t) = onVideoProgress P w t"
| "step P w (Completes i E) = complete P E i w"

definition run :: "platform \<Rightarrow> vworld \<Rightarrow> input list \<Rightarrow> vworld" where
  "run P w ins = foldl (step P) w ins"

text \<open>
  The events of a trace that are calls to the engine, to the backend, to \<open>unlink\<close>, to the
  picker; the errors on the console; the alerts.
\<close>

definition ffmpeg_calls :: "event list \<Rightarrow> string list" where
  "ffmpeg_calls es = concat (map (\<lambda>e. case e of FFmpegExecute c \<Rightarrow> [c] | _ \<Rightarrow> []) es)"

definition fetch_calls :: "event list \<Rightarrow> string list" where
  "fetch_calls es = concat (map (\<lambda>e. case e of Fetch url f u t n \<Rightarrow> [url] | _ \<Rightarrow> []) es)"

definition unlink_calls :: "event list \<Rightarrow> string list" where
  "unlink_calls es = concat (map (\<lambda>e. case e of Unlink p \<Rightarrow> [p] | _ \<Rightarrow> []) es)"

definition error_logs :: "event list \<Rightarrow> logarg list list" where
  "error_logs es = concat (map (\<lambda>e. case e of ConsoleError a \<Rightarrow> [a] | _ \<Rightarrow> []) es)"

definition alerts :: "event list \<Rightarrow> string list" where
  "alerts es = concat (map (\<lambda>e. case e of AlertShown t m \<Rightarrow> [t] | _ \<Rightarrow> []) es)"

definition pick_calls :: "event list \<Rightarrow> string list" where
  "pick_calls es = concat (map (\<lambda>e. case e of Pick t \<Rightarrow> [t] | _ \<Rightarrow> []) es)"


section \<open>The media analyzer (manual upload, \<open>App.tsx\<close>)\<close>

record media =
  processingStatus_m :: string
  imageClassification_m :: jsval
  audioClassification_m :: jsval
  isProcessing_m :: bool

type_synonym mworld = "(media, unit) world"

definition media_init :: mworld where
  "media_init =
     \<lparr>ui = \<lparr>processingStatus_m = [], imageClassification_m = JStr [],
            audioClassification_m = JStr [], isProcessing_m = False\<rparr>,
      out = [], pending = []\<rparr>"

definition setProcessingStatus_m :: "string \<Rightarrow> mworld \<Rightarrow> mworld" where
  "setProcessingStatus_m v w = w\<lparr>ui := (ui w)\<lparr>processingStatus_m := v\<rparr>\<rparr>"

definition setImageClassification_m :: "jsval \<Rightarrow> mworld \<Rightarrow> mworld" where
  "setImageClassification_m v w = w\<lparr>ui := (ui w)\<lparr>imageClassification_m := v\<rparr>\<rparr>"

definition setAudioClassification_m :: "jsval \<Rightarrow> mworld \<Rightarrow> mworld" where
  "setAudioClassification_m v w = w\<lparr>ui := (ui w)\<lparr>audioClassification_m := v\<rparr>\<rparr>"

definition setIsProcessing_m :: "bool \<Rightarrow> mworld \<Rightarrow> mworld" where
  "setIsProcessing_m v w = w\<lparr>ui := (ui w)\<lparr>isProcessing_m := v\<rparr>\<rparr>"

datatype mediaType = Image | Audio

definition openAppSettings_m :: "('ui, 'k) world \<Rightarrow> ('ui, 'k) world" where
  "openAppSettings_m =
     alert ''Permission Required''
       ''Storage permissions have been permanently denied. Please enable them in app settings.''"

definition requestPermissions_m :: "platform \<Rightarrow> env \<Rightarrow> mediaType \<Rightarrow> ('ui, 'k) world \<Rightarrow> ('ui, 'k) world \<times> bool" where
  "requestPermissions_m P E mediaType w =
     (if OS P \<noteq> ''android'' then (w, True)
      else if Version P \<ge> 33 then
        (let permission = (if mediaType = Image then ''READ_MEDIA_IMAGES'' else ''READ_MEDIA_AUDIO'');
             w1 = emit (PermissionRequest [permission]) w in
         case permission_request E permission of
           Throws e \<Rightarrow> (console_error [LS ''Permission error:'', LS e] w1, False)
         | Returns result \<Rightarrow>
             if result = GRANTED then (w1, True)
             else if result = NEVER_ASK_AGAIN then (openAppSettings_m w1, False)
             else (w1, False))
      else
        (let w1 = emit (PermissionRequest [''READ_EXTERNAL_STORAGE'']) w in
         case permission_request E ''READ_EXTERNAL_STORAGE'' of
           Throws e \<Rightarrow> (console_error [LS ''Permission error:'', LS e] w1, False)
         | Returns result \<Rightarrow> (w1, result = GRANTED)))"

definition uploadImage :: "platform \<Rightarrow> env \<Rightarrow> mworld \<Rightarrow> string \<Rightarrow> mworld" where
  "uploadImage P E w u =
     (let catch = (\<lambda>e w. alert ''Error'' ''Failed to upload image.''
                            (console_error [LS ''Error uploading image:'', LS e] w));
          w1 = setIsProcessing_m True w;
          url = BACKEND_URL P @ ''/predict_image'';
          w2 = emit (Fetch url ''image_file'' u ''image/jpeg'' ''uploaded_image.jpg'') w1
      in setIsProcessing_m False
          (case fetch_result E url of
             Throws e \<Rightarrow> catch e w2
           | Returns response \<Rightarrow>
               (case json response of
                  Throws e \<Rightarrow> catch e w2
                | Returns result \<Rightarrow>
                    (case get_prop ''predicted_class'' result of
                       Throws e \<Rightarrow> catch e w2
                     | Returns c \<Rightarrow>
                         setProcessingStatus_m ''Image classification complete.''
                           (setImageClassification_m (or_else c (JStr ''No classification'')) w2)))))"

definition uploadAudio :: "platform \<Rightarrow> env \<Rightarrow> mworld \<Rightarrow> string \<Rightarrow> mworld" where
  "uploadAudio P E w u =
     (let catch = (\<lambda>e w. alert ''Error'' ''Failed to upload audio.''
                            (console_error [LS ''Error uploading audio:'', LS e] w));
          w1 = setIsProcessing_m True w;
          url = BACKEND_URL P @ ''/predict'';
          w2 = emit (Fetch url ''audio_file'' u ''audio/wav'' ''uploaded_audio.wav'') w1
      in setIsProcessing_m False
          (case fetch_result E url of
             Throws e \<Rightarrow> catch e w2
           | Returns response \<Rightarrow>
               (case json response of
                  Throws e \<Rightarrow> catch e w2
                | Returns result \<Rightarrow>
                    (case get_prop ''emotion'' result of
                       Throws e \<Rightarrow> catch e w2
                     | Returns c \<Rightarrow>
                         setProcessingStatus_m ''Audio classification complete.''
                           (setAudioClassification_m (or_else c (JStr ''No classification'')) w2)))))"

definition pickImage :: "platform \<Rightarrow> env \<Rightarrow> mworld \<Rightarrow> mworld" where
  "pickImage P E w =
     (case requestPermissions_m P E Image w of
        (w1, hasPermission) \<Rightarrow>
          if \<not> hasPermission then
            alert ''Permission Denied'' ''Storage permission is required to select images.'' w1
          else
            (let w2 = emit (Pick ''image/*'') w1 in
             case pick_result E of
               Throws e \<Rightarrow>
                 alert ''Error'' ''Failed to pick image.''
                   (console_error [LS ''Error picking image:'', LS e] w2)
             | Returns [] \<Rightarrow> w2
             | Returns (result # _) \<Rightarrow>
                 uploadImage P E (setProcessingStatus_m (''Uploading image: '' @ name result) w2) (uri result)))"

definition pickAudio :: "platform \<Rightarrow> env \<Rightarrow> mworld \<Rightarrow> mworld" where
  "pickAudio P E w =
     (case requestPermissions_m P E Audio w of
        (w1, hasPermission) \<Rightarrow>
          if \<not> hasPermission then
            alert ''Permission Denied'' ''Storage permission is required to select audio.'' w1
          else
            (let w2 = emit (Pick ''audio/*'') w1 in
             case pick_result E of
               Throws e \<Rightarrow>
                 alert ''Error'' ''Failed to pick audio.''
                   (console_error [LS ''Error picking audio:'', LS e] w2)
             | Returns [] \<Rightarrow> w2
             | Returns (result # _) \<Rightarrow>
                 uploadAudio P E (setProcessingStatus_m (''Uploading audio: '' @ name result) w2) (uri result)))"

section \<open>The live camera screen (timer-driven variant)\<close>

text \<open>
  The state hooks and the refs of the component, and the runtime's table of interval
  timers: identifier, period in milliseconds, callback. Identifiers are positive.
\<close>

datatype callback = AudioChunkTick | FrameTick

record cam =
  hasPermission :: bool
  isLoading :: bool
  device :: "string option"
  cameraRef :: bool
  audioClassification_c :: jsval
  imageClassification_c :: jsval
  audioChunkInterval :: "nat option"
  frameInterval :: "nat option"
  isRecording :: bool
  intervals :: "(nat \<times> nat \<times> callback) list"
  last_timer :: nat

datatype cam_task = FramePending

type_synonym cworld = "(cam, cam_task) world"

definition cam_init :: cworld where
  "cam_init =
     \<lparr>ui = \<lparr>hasPermission = False, isLoading = True, device = None, cameraRef = False,
            audioClassification_c = JStr [], imageClassification_c = JStr [],
            audioChunkInterval = None, frameInterval = None, isRecording = False,
            intervals = [], last_timer = 0\<rparr>,
      out = [], pending = []\<rparr>"

definition setInterval :: "callback \<Rightarrow> nat \<Rightarrow> cworld \<Rightarrow> cworld \<times> nat" where
  "setInterval cb ms w =
     (let i = Suc (last_timer (ui w)) in
      (emit (SetInterval ms i)
         (w\<lparr>ui := (ui w)\<lparr>intervals := intervals (ui w) @ [(i, ms, cb)], last_timer := i\<rparr>\<rparr>), i))"

definition clearInterval :: "nat \<Rightarrow> cworld \<Rightarrow> cworld" where
  "clearInterval i w =
     emit (ClearInterval i)
       (w\<lparr>ui := (ui w)\<lparr>intervals := filter (\<lambda>t. fst t \<noteq> i) (intervals (ui w))\<rparr>\<rparr>)"

definition initAudioRecorder :: "cworld \<Rightarrow> cworld" where
  "initAudioRecorder = emit AudioRecordInit"

definition startRecording :: "env \<Rightarrow> cworld \<Rightarrow> cworld" where
  "startRecording E w =
     (if \<not> isRecording (ui w) then
        (let w1 = emit AudioRecordStart (w\<lparr>ui := (ui w)\<lparr>isRecording := True\<rparr>\<rparr>) in
         case audio_start_result E of
           Throws e \<Rightarrow> console_error [LS ''Error starting recording:'', LS e] w1
         | Returns _ \<Rightarrow> w1)
      else w)"

definition stopRecording :: "env \<Rightarrow> cworld \<Rightarrow> cworld \<times> string option" where
  "stopRecording E w =
     (if isRecording (ui w) then
        (let w1 = emit AudioRecordStop w in
         case audio_stop_result E of
           Throws e \<Rightarrow> (console_error [LS ''Error stopping recording:'', LS e] w1, None)
         | Returns audioFile \<Rightarrow> (w1\<lparr>ui := (ui w1)\<lparr>isRecording := False\<rparr>\<rparr>, Some audioFile))
      else (w, None))"

definition processAudioChunk_c :: "env \<Rightarrow> cworld \<Rightarrow> string \<Rightarrow> cworld" where
  "processAudioChunk_c E w u =
     (let catch = (\<lambda>e. console_error [LS ''Error processing audio:'', LS e]);
          url = ''http://localhost:8001/predict'';
          w1 = emit (Fetch url ''audio_file'' u ''audio/wav'' ''audio_chunk.wav'') w
      in case fetch_result E url of
           Throws e \<Rightarrow> catch e w1
         | Returns response \<Rightarrow>
             (case json response of
                Throws e \<Rightarrow> catch e w1
              | Returns result \<Rightarrow>
                  (case get_prop ''classification'' result of
                     Throws e \<Rightarrow> catch e w1
                   | Returns c \<Rightarrow> w1\<lparr>ui := (ui w1)\<lparr>audioClassification_c := c\<rparr>\<rparr>)))"

text \<open>
  \<open>processVideoFrame\<close> of this screen, the callback of the frame timer. Its synchronous
  part tests \<open>cameraRef.current\<close> and calls \<open>takePhoto\<close>; the rest runs when the photo is
  there.
\<close>

definition processVideoFrame_c_sync :: "cworld \<Rightarrow> cworld \<times> unit option" where
  "processVideoFrame_c_sync w =
     (if cameraRef (ui w) then (emit TakePhoto w, Some ()) else (w, None))"

definition processVideoFrame_c_rest :: "env \<Rightarrow> cworld \<Rightarrow> cworld" where
  "processVideoFrame_c_rest E w =
     (let catch = (\<lambda>e. console_error [LS ''Error processing video frame:'', LS e]) in
      case takePhoto_result E of
        Throws e \<Rightarrow> catch e w
      | Returns path \<Rightarrow>
          (let url = ''http://localhost:9001/predict_image'';
               w1 = emit (Fetch url ''image_file'' (''file://'' @ path) ''image/jpeg'' ''frame.jpg'') w
           in case fetch_result E url of
                Throws e \<Rightarrow> catch e w1
              | Returns response \<Rightarrow>
                  (case json response of
                     Throws e \<Rightarrow> catch e w1
                   | Returns result \<Rightarrow>
                       (case get_prop ''classification'' result of
                          Throws e \<Rightarrow> catch e w1
                        | Returns c \<Rightarrow> w1\<lparr>ui := (ui w1)\<lparr>imageClassification_c := c\<rparr>\<rparr>))))"

definition processVideoFrame_c :: "env \<Rightarrow> cworld \<Rightarrow> cworld" where
  "processVideoFrame_c E w =
     (case processVideoFrame_c_sync w of
        (w1, None) \<Rightarrow> w1
      | (w1, Some _) \<Rightarrow> processVideoFrame_c_rest E w1)"

text \<open>
  The callbacks of the two timers. The frame timer calls \<open>processVideoFrame\<close> and does
  not wait for it. The audio timer starts the recorder and sets a timeout of two seconds,
  whose callback stops the recorder and uploads the file.
\<close>

definition frame_tick :: "cworld \<Rightarrow> cworld" where
  "frame_tick w = call_async (\<lambda>_. FramePending) (processVideoFrame_c_sync w)"

definition audio_tick :: "env \<Rightarrow> cworld \<Rightarrow> cworld" where
  "audio_tick E w = emit (SetTimeout 2000) (startRecording E w)"

definition audio_timeout :: "env \<Rightarrow> cworld \<Rightarrow> cworld" where
  "audio_timeout E w =
     (case stopRecording E w of
        (w1, None) \<Rightarrow> w1
      | (w1, Some audioFile) \<Rightarrow> if audioFile \<noteq> [] then processAudioChunk_c E w1 audioFile else w1)"

text \<open>
  The first effect, which runs once when the component mounts. On Android the two
  permissions are kept as booleans, the results of \<open>=== PermissionsAndroid.RESULTS.GRANTED\<close>;
  elsewhere they are the strings \<open>Camera.requestCameraPermission\<close> and
  \<open>Camera.requestMicrophonePermission\<close> resolve to. The test that follows compares each of
  them with the string \<open>'granted'\<close> by \<open>===\<close>, which is equality of \<open>jsval\<close>s.
  \<open>useCameraDevices\<close> is a React hook: called here, inside an asynchronous callback and
  not while the component renders, it throws, so \<open>setDevice\<close> and the \<open>setIsLoading(false)\<close>
  after the test do not run on that path. Nothing catches a rejection of the callback.
\<close>

definition permission_effect :: "platform \<Rightarrow> env \<Rightarrow> cworld \<Rightarrow> cworld" where
  "permission_effect P E w =
     (case (if OS P = ''android'' then
              (let w1 = emit (PermissionRequest [''CAMERA'', ''RECORD_AUDIO'']) w in
               case permission_requestMultiple E of
                 Throws e \<Rightarrow> (w1, Throws e)
               | Returns granted \<Rightarrow>
                   (w1, Returns (JBool (granted ''CAMERA'' = GRANTED),
                                 JBool (granted ''RECORD_AUDIO'' = GRANTED))))
            else
              (let w1 = emit (PermissionRequest [''camera'']) w in
               case camera_permission_result E of
                 Throws e \<Rightarrow> (w1, Throws e)
               | Returns c \<Rightarrow>
                   (let w2 = emit (PermissionRequest [''microphone'']) w1 in
                    case microphone_permission_result E of
                      Throws e \<Rightarrow> (w2, Throws e)
                    | Returns a \<Rightarrow> (w2, Returns (JStr c, JStr a))))) of
        (w1, Throws e) \<Rightarrow> w1
      | (w1, Returns (cameraPermission, audioPermission)) \<Rightarrow>
          if cameraPermission = JStr ''granted'' \<and> audioPermission = JStr ''granted''
          then w1\<lparr>ui := (ui w1)\<lparr>hasPermission := True\<rparr>\<rparr>
          else w1\<lparr>ui := (ui w1)\<lparr>isLoading := False\<rparr>\<rparr>)"

text \<open>
  The effect that depends on \<open>hasPermission\<close>, and the cleanup it returns. A timer
  identifier is a positive number, so the tests \<open>if (audioChunkInterval.current)\<close> and
  \<open>if (frameInterval.current)\<close> ask whether the ref was ever assigned.
\<close>

definition timers_effect :: "cworld \<Rightarrow> cworld" where
  "timers_effect w =
     (if hasPermission (ui w) then
        (case setInterval AudioChunkTick 2500 (initAudioRecorder w) of
           (w1, a) \<Rightarrow>
             (case setInterval FrameTick 1000 (w1\<lparr>ui := (ui w1)\<lparr>audioChunkInterval := Some a\<rparr>\<rparr>) of
                (w2, f) \<Rightarrow> w2\<lparr>ui := (ui w2)\<lparr>frameInterval := Some f\<rparr>\<rparr>))
      else w)"

definition timers_cleanup :: "cworld \<Rightarrow> cworld" where
  "timers_cleanup w =
     (let w1 = (case audioChunkInterval (ui w) of
                  None \<Rightarrow> w
                | Some i \<Rightarrow> if i \<noteq> 0 then clearInterval i w else w);
          w2 = (case frameInterval (ui w1) of
                  None \<Rightarrow> w1
                | Some i \<Rightarrow> if i \<noteq> 0 then clearInterval i w1 else w1)
      in emit AudioRecordStop w2)"

section \<open>Failure of an upload\<close>

text \<open>
  An upload is the sequence \<open>fetch\<close>, \<open>response.json()\<close>, read of the label in the
  result. \<open>upload_error\<close> is the exception this sequence raises, if any: the rejection of
  \<open>fetch\<close> (network error), the rejection of \<open>json()\<close> (the body is not JSON), or
  the TypeError of reading a property of \<open>null\<close> (the body is the JSON text \<open>null\<close>).
  The status of the response plays no part.
\<close>

definition nullish :: "jsval \<Rightarrow> bool" where
  "nullish v = (v = JNull \<or> v = JUndefined)"

definition upload_error :: "env \<Rightarrow> string \<Rightarrow> err option" where
  "upload_error E url =
     (case fetch_result E url of
        Throws e \<Rightarrow> Some e
      | Returns response \<Rightarrow>
          (case json response of
             Throws e \<Rightarrow> Some e
           | Returns result \<Rightarrow> if nullish result then Some ''TypeError'' else None))"

text \<open>The same environment, where every response carries the status \<open>n\<close>.\<close>

definition with_status :: "nat \<Rightarrow> env \<Rightarrow> env" where
  "with_status n E =
     E\<lparr>fetch_result := (\<lambda>url. case fetch_result E url of
                                  Throws e \<Rightarrow> Throws e
                                | Returns response \<Rightarrow> Returns (response\<lparr>status := n\<rparr>))\<rparr>"

section \<open>Concrete inputs\<close>

text \<open>
  A device, an environment in which every collaborator succeeds, and a state in which a
  video is selected. The texts of numbers are only needed at time 3.
\<close>

definition dev :: platform where
  "dev = \<lparr>OS = ''android'', Version = 33, CacheDir = ''/cache'',
           num_toString = (\<lambda>r. ''3''), num_toFixed = (\<lambda>n r. ''3.0'')\<rparr>"

definition env_ok :: env where
  "env_ok =
     \<lparr>permission_request = (\<lambda>p. Returns GRANTED),
      permission_requestMultiple = Returns (\<lambda>p. GRANTED),
      pick_result = Returns [\<lparr>uri = ''file:///v.mp4'', name = ''v.mp4''\<rparr>],
      copy_result = (\<lambda>u. Returns ()),
      ffmpeg_execute = (\<lambda>c. Returns \<lparr>getReturnCode = Returns (Some 0), getLogsAsString = Returns ''ok''\<rparr>),
      fetch_result = (\<lambda>u. Returns \<lparr>status = 200, json = Returns (JObj [(''classification'', JStr ''cat'')])\<rparr>),
      unlink_result = (\<lambda>p. Returns ()),
      camera_permission_result = Returns ''granted'',
      microphone_permission_result = Returns ''granted'',
      takePhoto_result = Returns ''/tmp/photo.jpg'',
      audio_start_result = Returns (),
      audio_stop_result = Returns ''/tmp/audio_chunk.wav''\<rparr>"

definition selected :: vworld where
  "selected = \<lparr>ui = app_init\<lparr>videoUri := Some ''file:///v.mp4''\<rparr>, out = [], pending = []\<rparr>"

text \<open>
  The backend answers 500 with a JSON body; the network is down; the engine reports a
  failure; a state with a video selected and both labels set.
\<close>

definition env_500 :: env where
  "env_500 = env_ok\<lparr>fetch_result :=
      (\<lambda>u. Returns \<lparr>status = 500, json = Returns (JObj [(''error'', JStr ''Internal Server Error'')])\<rparr>)\<rparr>"

definition env_offline :: env where
  "env_offline = env_ok\<lparr>fetch_result := (\<lambda>u. Throws ''Network request failed'')\<rparr>"


definition labelled :: vworld where
  "labelled =
     \<lparr>ui = app_init\<lparr>videoUri := Some ''file:///v.mp4'', audioClassification := JStr ''speech'',
                     imageClassification := JStr ''cat''\<rparr>,
      out = [], pending = []\<rparr>"

definition labelled_m :: mworld where
  "labelled_m =
     \<lparr>ui = \<lparr>processingStatus_m = [], imageClassification_m = JStr ''cat'',
            audioClassification_m = JStr ''happy'', isProcessing_m = False\<rparr>,
      out = [], pending = []\<rparr>"

text \<open>
  The user denies the permission; the permission API throws; a device before Android 13;
  a device that is not Android; a state in the middle of a session.
\<close>

definition env_denied :: env where
  "env_denied = env_ok\<lparr>permission_request := (\<lambda>p. Returns DENIED)\<rparr>"

definition env_permission_throws :: env where
  "env_permission_throws =
     env_ok\<lparr>permission_request := (\<lambda>p. Throws ''no activity''),
            permission_requestMultiple := Throws ''no activity''\<rparr>"

definition dev_old :: platform where
  "dev_old = dev\<lparr>Version := 30\<rparr>"

definition dev_ios :: platform where
  "dev_ios = dev\<lparr>OS := ''ios'', Version := 17\<rparr>"

definition played :: vworld where
  "played =
     \<lparr>ui = \<lparr>videoUri = Some ''file:///old.mp4'', processingStatus = ''Extracting frame at 7.0s...'',
            audioClassification = JStr ''speech'', imageClassification = JStr ''cat'',
            lastFrameTime = 7, lastAudioTime = 5, isProcessing = False\<rparr>,
      out = [], pending = []\<rparr>"

section \<open>Basic facts\<close>

lemma emit_simps [simp]:
  "ui (emit e w) = ui w" "out (emit e w) = out w @ [e]" "pending (emit e w) = pending w"
  by (simp_all add: emit_def)

lemma console_simps [simp]:
  "ui (console_log a w) = ui w" "out (console_log a w) = out w @ [ConsoleLog a]"
  "pending (console_log a w) = pending w"
  "ui (console_error a w) = ui w" "out (console_error a w) = out w @ [ConsoleError a]"
  "pending (console_error a w) = pending w"
  "ui (alert t m w) = ui w" "out (alert t m w) = out w @ [AlertShown t m]"
  "pending (alert t m w) = pending w"
  by (simp_all add: console_log_def console_error_def alert_def)

lemmas setter_defs = setVideoUri_def setProcessingStatus_def setAudioClassification_def
  setImageClassification_def setLastFrameTime_def setLastAudioTime_def setIsProcessing_def

lemma setter_out [simp]:
  "out (setVideoUri a w) = out w" "out (setProcessingStatus s w) = out w"
  "out (setAudioClassification v w) = out w" "out (setImageClassification v w) = out w"
  "out (setLastFrameTime r w) = out w" "out (setLastAudioTime r w) = out w"
  "out (setIsProcessing b w) = out w"
  by (simp_all add: setter_defs)

lemma setter_pending [simp]:
  "pending (setVideoUri a w) = pending w" "pending (setProcessingStatus s w) = pending w"
  "pending (setAudioClassification v w) = pending w"
  "pending (setImageClassification v w) = pending w"
  "pending (setLastFrameTime r w) = pending w" "pending (setLastAudioTime r w) = pending w"
  "pending (setIsProcessing b w) = pending w"
  by (simp_all add: setter_defs)

lemma setter_ui [simp]:
  "ui (setVideoUri a w) = (ui w)\<lparr>videoUri := a\<rparr>"
  "ui (setProcessingStatus s w) = (ui w)\<lparr>processingStatus := s\<rparr>"
  "ui (setAudioClassification v w) = (ui w)\<lparr>audioClassification := v\<rparr>"
  "ui (setImageClassification v w) = (ui w)\<lparr>imageClassification := v\<rparr>"
  "ui (setLastFrameTime r w) = (ui w)\<lparr>lastFrameTime := r\<rparr>"
  "ui (setLastAudioTime r w) = (ui w)\<lparr>lastAudioTime := r\<rparr>"
  "ui (setIsProcessing b w) = (ui w)\<lparr>isProcessing := b\<rparr>"
  by (simp_all add: setter_defs)

lemma ffmpeg_calls_simps [simp]:
  "ffmpeg_calls [] = []" "ffmpeg_calls (xs @ ys) = ffmpeg_calls xs @ ffmpeg_calls ys"
  "ffmpeg_calls (e # es) = (case e of FFmpegExecute c \<Rightarrow> [c] | _ \<Rightarrow> []) @ ffmpeg_calls es"
  by (simp_all add: ffmpeg_calls_def)

lemma fetch_calls_simps [simp]:
  "fetch_calls [] = []" "fetch_calls (xs @ ys) = fetch_calls xs @ fetch_calls ys"
  "fetch_calls (e # es) = (case e of Fetch url f u t n \<Rightarrow> [url] | _ \<Rightarrow> []) @ fetch_calls es"
  by (simp_all add: fetch_calls_def)

lemma unlink_calls_simps [simp]:
  "unlink_calls [] = []" "unlink_calls (xs @ ys) = unlink_calls xs @ unlink_calls ys"
  "unlink_calls (e # es) = (case e of Unlink p \<Rightarrow> [p] | _ \<Rightarrow> []) @ unlink_calls es"
  by (simp_all add: unlink_calls_def)

lemma error_logs_simps [simp]:
  "error_logs [] = []" "error_logs (xs @ ys) = error_logs xs @ error_logs ys"
  "error_logs (e # es) = (case e of ConsoleError a \<Rightarrow> [a] | _ \<Rightarrow> []) @ error_logs es"
  by (simp_all add: error_logs_def)

lemma alerts_simps [simp]:
  "alerts [] = []" "alerts (xs @ ys) = alerts xs @ alerts ys"
  "alerts (e # es) = (case e of AlertShown t m \<Rightarrow> [t] | _ \<Rightarrow> []) @ alerts es"
  by (simp_all add: alerts_def)

lemma pick_calls_simps [simp]:
  "pick_calls [] = []" "pick_calls (xs @ ys) = pick_calls xs @ pick_calls ys"
  "pick_calls (e # es) = (case e of Pick t \<Rightarrow> [t] | _ \<Rightarrow> []) @ pick_calls es"
  by (simp_all add: pick_calls_def)

lemma createSubdirectories_simps [simp]:
  "ui (fst (createSubdirectories P w)) = ui w"
  "pending (fst (createSubdirectories P w)) = pending w"
  "snd (createSubdirectories P w) =
     (CacheDir P @ ''/video_processing/frames'', CacheDir P @ ''/video_processing/audio'')"
  "out (fst (createSubdirectories P w)) =
     out w @ [Mkdir (CacheDir P @ ''/video_processing''),
              Mkdir (CacheDir P @ ''/video_processing/frames''),
              Mkdir (CacheDir P @ ''/video_processing/audio'')]"
  by (simp_all add: createSubdirectories_def Let_def)

lemma processVideoFrame_keeps:
  "ffmpeg_calls (out (processVideoFrame P E w p)) = ffmpeg_calls (out w)"
  "isProcessing (ui (processVideoFrame P E w p)) = isProcessing (ui w)"
  "audioClassification (ui (processVideoFrame P E w p)) = audioClassification (ui w)"
  "pending (processVideoFrame P E w p) = pending w"
  by (simp_all add: processVideoFrame_def Let_def split: outcome.splits)

lemma processAudioChunk_keeps:
  "ffmpeg_calls (out (processAudioChunk P E w p)) = ffmpeg_calls (out w)"
  "isProcessing (ui (processAudioChunk P E w p)) = isProcessing (ui w)"
  "imageClassification (ui (processAudioChunk P E w p)) = imageClassification (ui w)"
  "pending (processAudioChunk P E w p) = pending w"
  by (simp_all add: processAudioChunk_def Let_def split: outcome.splits)

lemma media_simps [simp]:
  "out (setProcessingStatus_m s w) = out w" "out (setImageClassification_m v w) = out w"
  "out (setAudioClassification_m v w) = out w" "out (setIsProcessing_m b w) = out w"
  "ui (setProcessingStatus_m s w) = (ui w)\<lparr>processingStatus_m := s\<rparr>"
  "ui (setImageClassification_m v w) = (ui w)\<lparr>imageClassification_m := v\<rparr>"
  "ui (setAudioClassification_m v w) = (ui w)\<lparr>audioClassification_m := v\<rparr>"
  "ui (setIsProcessing_m b w) = (ui w)\<lparr>isProcessing_m := b\<rparr>"
  "pending (setProcessingStatus_m s w) = pending w"
  "pending (setImageClassification_m v w) = pending w"
  "pending (setAudioClassification_m v w) = pending w"
  "pending (setIsProcessing_m b w) = pending w"
  by (simp_all add: setProcessingStatus_m_def setImageClassification_m_def
      setAudioClassification_m_def setIsProcessing_m_def)

lemma get_prop_nullish:
  "get_prop k v =
     (if nullish v then Throws ''TypeError''
      else Returns (case v of
                      JObj kvs \<Rightarrow> (case map_of kvs k of None \<Rightarrow> JUndefined | Some x \<Rightarrow> x)
                    | _ \<Rightarrow> JUndefined))"
  by (cases v) (simp_all add: nullish_def)

lemma call_async_simps [simp]:
  "call_async mk (w, None) = w"
  "call_async mk (w, Some a) = w\<lparr>pending := pending w @ [mk a]\<rparr>"
  by (simp_all add: call_async_def)

lemma requestPermissions_keeps:
  "ui (fst (requestPermissions P E w)) = ui w"
  "pending (fst (requestPermissions P E w)) = pending w"
  "pick_calls (out (fst (requestPermissions P E w))) = pick_calls (out w)"
  "ffmpeg_calls (out (fst (requestPermissions P E w))) = ffmpeg_calls (out w)"
  "fetch_calls (out (fst (requestPermissions P E w))) = fetch_calls (out w)"
  by (simp_all add: requestPermissions_def openAppSettings_def Let_def split: outcome.splits)

lemma requestPermissions_m_keeps:
  "ui (fst (requestPermissions_m P E mt w)) = ui w"
  "pending (fst (requestPermissions_m P E mt w)) = pending w"
  "pick_calls (out (fst (requestPermissions_m P E mt w))) = pick_calls (out w)"
  "ffmpeg_calls (out (fst (requestPermissions_m P E mt w))) = ffmpeg_calls (out w)"
  "fetch_calls (out (fst (requestPermissions_m P E mt w))) = fetch_calls (out w)"
  by (simp_all add: requestPermissions_m_def openAppSettings_m_def Let_def split: outcome.splits)

lemma requestPermissions_result:
  "snd (requestPermissions P E w) =
     (OS P \<noteq> ''android'' \<or>
      (if Version P \<ge> 33 then permission_request E ''READ_MEDIA_VIDEO'' = Returns GRANTED
       else (\<exists>r. permission_requestMultiple E = Returns r
                 \<and> r ''READ_EXTERNAL_STORAGE'' = GRANTED \<and> r ''WRITE_EXTERNAL_STORAGE'' = GRANTED)))"
  by (auto simp add: requestPermissions_def Let_def split: outcome.splits)

lemma requestPermissions_m_result:
  "snd (requestPermissions_m P E mt w) =
     (OS P \<noteq> ''android'' \<or>
      permission_request E
        (if Version P \<ge> 33
         then (if mt = Image then ''READ_MEDIA_IMAGES'' else ''READ_MEDIA_AUDIO'')
         else ''READ_EXTERNAL_STORAGE'') = Returns GRANTED)"
  by (auto simp add: requestPermissions_m_def Let_def split: outcome.splits)

lemma requestPermissions_same:
  "snd (requestPermissions P E w) = snd (requestPermissions P E w')"
  by (simp add: requestPermissions_result)

lemma setInterval_simps [simp]:
  "snd (setInterval cb ms w) = Suc (last_timer (ui w))"
  "ui (fst (setInterval cb ms w)) =
     (ui w)\<lparr>intervals := intervals (ui w) @ [(Suc (last_timer (ui w)), ms, cb)],
            last_timer := Suc (last_timer (ui w))\<rparr>"
  "out (fst (setInterval cb ms w)) = out w @ [SetInterval ms (Suc (last_timer (ui w)))]"
  "pending (fst (setInterval cb ms w)) = pending w"
  by (simp_all add: setInterval_def Let_def)

lemma clearInterval_simps [simp]:
  "ui (clearInterval i w) = (ui w)\<lparr>intervals := filter (\<lambda>t. fst t \<noteq> i) (intervals (ui w))\<rparr>"
  "out (clearInterval i w) = out w @ [ClearInterval i]"
  "pending (clearInterval i w) = pending w"
  by (simp_all add: clearInterval_def)

section \<open>The command given to the transcoding engine\<close>

lemma captureFrame_rest_command:
  "ffmpeg_calls (out (captureFrame_rest P E u t w)) =
     ffmpeg_calls (out w) @
       [''-ss '' @ num_toString P t @ '' -i \"'' @ u @ ''\" -vframes 1 -q:v 2 \"''
          @ CacheDir P @ ''/video_processing/frames/frame_'' @ num_toString P (of_int \<lfloor>t\<rfloor>)
          @ ''.jpg\"'']"
  by (simp add: captureFrame_rest_def Let_def processVideoFrame_keeps split_beta split: outcome.splits)

lemma processAudioAtTime_rest_command:
  "ffmpeg_calls (out (processAudioAtTime_rest P E u t w)) =
     ffmpeg_calls (out w) @
       [''-ss '' @ num_toString P t @ '' -i \"'' @ u
          @ ''\" -t 2.5 -acodec pcm_s16le -ar 16000 -ac 1 \"''
          @ CacheDir P @ ''/video_processing/audio/chunk_'' @ num_toString P (of_int \<lfloor>t\<rfloor>)
          @ ''.wav\"'']"
  by (simp add: processAudioAtTime_rest_def Let_def processAudioChunk_keeps split_beta split: outcome.splits)

text \<open>
  C7. When a video is selected, an extraction at time \<open>t\<close> gives the engine exactly one
  command, whatever the collaborators answer. For a frame it seeks to \<open>t\<close> (\<open>-ss t\<close>
  before the input), takes one frame (\<open>-vframes 1\<close>) at quality 2 (\<open>-q:v 2\<close>) and writes
  \<open>frame_<floor t>.jpg\<close> under \<open><cache>/video_processing/frames/\<close>. For audio it seeks
  to \<open>t\<close>, takes 2.5 seconds (\<open>-t 2.5\<close>) as 16-bit PCM (\<open>pcm_s16le\<close>) at 16 kHz
  (\<open>-ar 16000\<close>), mono (\<open>-ac 1\<close>), and writes \<open>chunk_<floor t>.wav\<close> under
  \<open><cache>/video_processing/audio/\<close>.
\<close>

theorem extraction_command_contract:
  assumes "videoUri (ui w) = Some u" and "u \<noteq> []"
  shows "ffmpeg_calls (out (captureFrame P E w t)) =
           ffmpeg_calls (out w) @
             [''-ss '' @ num_toString P t @ '' -i \"'' @ u @ ''\" -vframes 1 -q:v 2 \"''
                @ CacheDir P @ ''/video_processing/frames/frame_''
                @ num_toString P (of_int \<lfloor>t\<rfloor>) @ ''.jpg\"'']
       \<and> ffmpeg_calls (out (processAudioAtTime P E w t)) =
           ffmpeg_calls (out w) @
             [''-ss '' @ num_toString P t @ '' -i \"'' @ u
                @ ''\" -t 2.5 -acodec pcm_s16le -ar 16000 -ac 1 \"''
                @ CacheDir P @ ''/video_processing/audio/chunk_''
                @ num_toString P (of_int \<lfloor>t\<rfloor>) @ ''.wav\"'']"
  using assms
  by (simp add: captureFrame_def captureFrame_sync_def processAudioAtTime_def
      processAudioAtTime_sync_def captureFrame_rest_command processAudioAtTime_rest_command)

theorem extraction_command_contract_witness:
  "ffmpeg_calls (out (captureFrame dev env_ok selected 3)) =
     [''-ss 3 -i \"file:///v.mp4\" -vframes 1 -q:v 2 \"/cache/video_processing/frames/frame_3.jpg\"'']
   \<and> ffmpeg_calls (out (processAudioAtTime dev env_ok selected 3)) =
     [''-ss 3 -i \"file:///v.mp4\" -t 2.5 -acodec pcm_s16le -ar 16000 -ac 1 \"/cache/video_processing/audio/chunk_3.wav\"'']"
  using extraction_command_contract [of selected "''file:///v.mp4''" dev env_ok 3]
  by (simp add: selected_def app_init_def dev_def)

section \<open>No video selected\<close>

text \<open>
  C10. When \<open>videoUri\<close> is \<open>null\<close>, \<open>captureFrame\<close> and \<open>processAudioAtTime\<close> return at
  once for every time: the state hooks, the trace of calls to collaborators (engine,
  backend, file system, console) and the pending sequences are all as before.
\<close>

theorem no_video_no_extraction:
  "videoUri (ui w) = None \<Longrightarrow> captureFrame P E w t = w \<and> processAudioAtTime P E w t = w"
  by (simp add: captureFrame_def captureFrame_sync_def processAudioAtTime_def
      processAudioAtTime_sync_def)

theorem no_video_no_extraction_witness:
  "videoUri (ui world_init) = None \<and> captureFrame dev env_ok world_init 3 = world_init
   \<and> processAudioAtTime dev env_ok world_init 3 = world_init"
  using no_video_no_extraction [of world_init dev env_ok 3]
  by (simp add: world_init_def app_init_def)

section \<open>Failure of the transcoding engine\<close>

lemma captureFrame_rest_clears: "isProcessing (ui (captureFrame_rest P E u t w)) = False"
  by (simp add: captureFrame_rest_def)

lemma processAudioAtTime_rest_clears: "isProcessing (ui (processAudioAtTime_rest P E u t w)) = False"
  by (simp add: processAudioAtTime_rest_def)

lemma resume_clears: "isProcessing (ui (resume P E k w)) = False"
  by (cases k) (simp_all add: captureFrame_rest_clears processAudioAtTime_rest_clears)







section \<open>A failed upload\<close>

lemma processVideoFrame_failure:
  assumes "upload_error E (BACKEND_URL P @ ''/predict_image'') = Some e"
  shows "imageClassification (ui (processVideoFrame P E w p)) = imageClassification (ui w)"
    and "error_logs (out (processVideoFrame P E w p)) =
           error_logs (out w) @ [[LS ''Error processing video frame:'', LS e]]"
    and "fetch_calls (out (processVideoFrame P E w p)) =
           fetch_calls (out w) @ [BACKEND_URL P @ ''/predict_image'']"
    and "alerts (out (processVideoFrame P E w p)) = alerts (out w)"
  using assms
  by (auto simp: processVideoFrame_def upload_error_def get_prop_nullish Let_def
      split: outcome.splits if_splits)

lemma processAudioChunk_failure:
  assumes "upload_error E (BACKEND_URL P @ ''/predict'') = Some e"
  shows "audioClassification (ui (processAudioChunk P E w p)) = audioClassification (ui w)"
    and "error_logs (out (processAudioChunk P E w p)) =
           error_logs (out w) @ [[LS ''Error processing audio:'', LS e]]"
    and "fetch_calls (out (processAudioChunk P E w p)) =
           fetch_calls (out w) @ [BACKEND_URL P @ ''/predict'']"
    and "alerts (out (processAudioChunk P E w p)) = alerts (out w)"
  using assms
  by (auto simp: processAudioChunk_def upload_error_def get_prop_nullish Let_def
      split: outcome.splits if_splits)

lemma uploadImage_failure:
  assumes "upload_error E (BACKEND_URL P @ ''/predict_image'') = Some e"
  shows "imageClassification_m (ui (uploadImage P E w p)) = imageClassification_m (ui w)"
    and "error_logs (out (uploadImage P E w p)) =
           error_logs (out w) @ [[LS ''Error uploading image:'', LS e]]"
    and "fetch_calls (out (uploadImage P E w p)) =
           fetch_calls (out w) @ [BACKEND_URL P @ ''/predict_image'']"
  using assms
  by (auto simp: uploadImage_def upload_error_def get_prop_nullish Let_def
      split: outcome.splits if_splits)

lemma uploadAudio_failure:
  assumes "upload_error E (BACKEND_URL P @ ''/predict'') = Some e"
  shows "audioClassification_m (ui (uploadAudio P E w p)) = audioClassification_m (ui w)"
    and "error_logs (out (uploadAudio P E w p)) =
           error_logs (out w) @ [[LS ''Error uploading audio:'', LS e]]"
    and "fetch_calls (out (uploadAudio P E w p)) =
           fetch_calls (out w) @ [BACKEND_URL P @ ''/predict'']"
  using assms
  by (auto simp: uploadAudio_def upload_error_def get_prop_nullish Let_def
      split: outcome.splits if_splits)

lemma processVideoFrame_c_failure:
  assumes "takePhoto_result E = Returns path"
    and "upload_error E ''http://localhost:9001/predict_image'' = Some e"
  shows "imageClassification_c (ui (processVideoFrame_c_rest E cw)) = imageClassification_c (ui cw)"
    and "error_logs (out (processVideoFrame_c_rest E cw)) =
           error_logs (out cw) @ [[LS ''Error processing video frame:'', LS e]]"
    and "fetch_calls (out (processVideoFrame_c_rest E cw)) =
           fetch_calls (out cw) @ [''http://localhost:9001/predict_image'']"
  using assms
  by (auto simp: processVideoFrame_c_rest_def upload_error_def get_prop_nullish Let_def
      split: outcome.splits if_splits)

lemma processAudioChunk_c_failure:
  assumes "upload_error E ''http://localhost:8001/predict'' = Some e"
  shows "audioClassification_c (ui (processAudioChunk_c E cw p)) = audioClassification_c (ui cw)"
    and "error_logs (out (processAudioChunk_c E cw p)) =
           error_logs (out cw) @ [[LS ''Error processing audio:'', LS e]]"
    and "fetch_calls (out (processAudioChunk_c E cw p)) =
           fetch_calls (out cw) @ [''http://localhost:8001/predict'']"
  using assms
  by (auto simp: processAudioChunk_c_def upload_error_def get_prop_nullish Let_def
      split: outcome.splits if_splits)

lemma status_ignored_c:
  "processVideoFrame_c_rest (with_status n E) cw = processVideoFrame_c_rest E cw"
  "processAudioChunk_c (with_status n E) cw p = processAudioChunk_c E cw p"
  by (simp_all add: processVideoFrame_c_rest_def processAudioChunk_c_def
      with_status_def Let_def split: outcome.splits)

lemma status_ignored:
  "processVideoFrame P (with_status n E) w p = processVideoFrame P E w p"
  "processAudioChunk P (with_status n E) w p = processAudioChunk P E w p"
  "uploadImage P (with_status n E) mw p = uploadImage P E mw p"
  "uploadAudio P (with_status n E) mw p = uploadAudio P E mw p"
  by (simp_all add: processVideoFrame_def processAudioChunk_def uploadImage_def uploadAudio_def
      with_status_def Let_def split: outcome.splits)

text \<open>
  C1, as the claim states it, fails: the status of the response is never read. When the
  backend answers 500 with a JSON body that has no \<open>classification\<close>, the upload of a frame
  replaces the label \<open>cat\<close> by \<open>No classification\<close> and logs no error.
\<close>

theorem non_2xx_changes_label:
  "fetch_result env_500 (BACKEND_URL dev @ ''/predict_image'') =
     Returns \<lparr>status = 500, json = Returns (JObj [(''error'', JStr ''Internal Server Error'')])\<rparr>
   \<and> imageClassification (ui labelled) = JStr ''cat''
   \<and> imageClassification
        (ui (processVideoFrame dev env_500 labelled ''/cache/video_processing/frames/frame_3.jpg''))
       = JStr ''No classification''
   \<and> error_logs
        (out (processVideoFrame dev env_500 labelled ''/cache/video_processing/frames/frame_3.jpg''))
       = []"
  by (simp add: processVideoFrame_def env_500_def env_ok_def labelled_def app_init_def dev_def
      BACKEND_URL_def or_else_def Let_def)

text \<open>
  C1, amended. For the uploads of the video analyzer (\<open>processVideoFrame\<close>,
  \<open>processAudioChunk\<close>), of the media analyzer (\<open>uploadImage\<close>, \<open>uploadAudio\<close>) and of the
  camera screen (its \<open>processVideoFrame\<close>, once the photo is taken, and its
  \<open>processAudioChunk\<close>): if the upload raises an exception (network error, body that is
  not JSON, body that is \<open>null\<close>), then the label of that modality is as before, exactly
  one error is logged, with the exception, and \<open>fetch\<close> was called exactly once (no
  retry). The status of the response is
  not examined: changing it in every response changes nothing, so a non-2xx response
  whose body is JSON is handled as any other response.
\<close>

theorem upload_failure_keeps_label:
  "(upload_error E (BACKEND_URL P @ ''/predict_image'') = Some e \<longrightarrow>
      imageClassification (ui (processVideoFrame P E w p)) = imageClassification (ui w)
    \<and> error_logs (out (processVideoFrame P E w p)) =
        error_logs (out w) @ [[LS ''Error processing video frame:'', LS e]]
    \<and> fetch_calls (out (processVideoFrame P E w p)) =
        fetch_calls (out w) @ [BACKEND_URL P @ ''/predict_image'']
    \<and> alerts (out (processVideoFrame P E w p)) = alerts (out w)
    \<and> imageClassification_m (ui (uploadImage P E mw p)) = imageClassification_m (ui mw)
    \<and> error_logs (out (uploadImage P E mw p)) =
        error_logs (out mw) @ [[LS ''Error uploading image:'', LS e]]
    \<and> fetch_calls (out (uploadImage P E mw p)) =
        fetch_calls (out mw) @ [BACKEND_URL P @ ''/predict_image''])
   \<and> (upload_error E (BACKEND_URL P @ ''/predict'') = Some e \<longrightarrow>
      audioClassification (ui (processAudioChunk P E w p)) = audioClassification (ui w)
    \<and> error_logs (out (processAudioChunk P E w p)) =
        error_logs (out w) @ [[LS ''Error processing audio:'', LS e]]
    \<and> fetch_calls (out (processAudioChunk P E w p)) =
        fetch_calls (out w) @ [BACKEND_URL P @ ''/predict'']
    \<and> alerts (out (processAudioChunk P E w p)) = alerts (out w)
    \<and> audioClassification_m (ui (uploadAudio P E mw p)) = audioClassification_m (ui mw)
    \<and> error_logs (out (uploadAudio P E mw p)) =
        error_logs (out mw) @ [[LS ''Error uploading audio:'', LS e]]
    \<and> fetch_calls (out (uploadAudio P E mw p)) =
        fetch_calls (out mw) @ [BACKEND_URL P @ ''/predict''])
   \<and> (takePhoto_result E = Returns path
        \<and> upload_error E ''http://localhost:9001/predict_image'' = Some e \<longrightarrow>
      imageClassification_c (ui (processVideoFrame_c_rest E cw)) = imageClassification_c (ui cw)
    \<and> error_logs (out (processVideoFrame_c_rest E cw)) =
        error_logs (out cw) @ [[LS ''Error processing video frame:'', LS e]]
    \<and> fetch_calls (out (processVideoFrame_c_rest E cw)) =
        fetch_calls (out cw) @ [''http://localhost:9001/predict_image''])
   \<and> (upload_error E ''http://localhost:8001/predict'' = Some e \<longrightarrow>
      audioClassification_c (ui (processAudioChunk_c E cw p)) = audioClassification_c (ui cw)
    \<and> error_logs (out (processAudioChunk_c E cw p)) =
        error_logs (out cw) @ [[LS ''Error processing audio:'', LS e]]
    \<and> fetch_calls (out (processAudioChunk_c E cw p)) =
        fetch_calls (out cw) @ [''http://localhost:8001/predict''])
   \<and> processVideoFrame P (with_status n E) w p = processVideoFrame P E w p
   \<and> processAudioChunk P (with_status n E) w p = processAudioChunk P E w p
   \<and> uploadImage P (with_status n E) mw p = uploadImage P E mw p
   \<and> uploadAudio P (with_status n E) mw p = uploadAudio P E mw p
   \<and> processVideoFrame_c_rest (with_status n E) cw = processVideoFrame_c_rest E cw
   \<and> processAudioChunk_c (with_status n E) cw p = processAudioChunk_c E cw p"
proof (intro conjI impI)
  assume "takePhoto_result E = Returns path
          \<and> upload_error E ''http://localhost:9001/predict_image'' = Some e"
  then have h: "takePhoto_result E = Returns path"
    "upload_error E ''http://localhost:9001/predict_image'' = Some e"
    by simp_all
  show "imageClassification_c (ui (processVideoFrame_c_rest E cw)) = imageClassification_c (ui cw)"
    and "error_logs (out (processVideoFrame_c_rest E cw)) =
           error_logs (out cw) @ [[LS ''Error processing video frame:'', LS e]]"
    and "fetch_calls (out (processVideoFrame_c_rest E cw)) =
           fetch_calls (out cw) @ [''http://localhost:9001/predict_image'']"
    by (rule processVideoFrame_c_failure [OF h])+
qed (simp_all add: processVideoFrame_failure processAudioChunk_failure uploadImage_failure
       uploadAudio_failure processAudioChunk_c_failure status_ignored status_ignored_c)

theorem upload_failure_keeps_label_witness:
  "upload_error env_offline (BACKEND_URL dev @ ''/predict_image'') = Some ''Network request failed''
   \<and> upload_error env_offline (BACKEND_URL dev @ ''/predict'') = Some ''Network request failed''
   \<and> imageClassification (ui (processVideoFrame dev env_offline labelled ''/f.jpg'')) = JStr ''cat''
   \<and> error_logs (out (processVideoFrame dev env_offline labelled ''/f.jpg'')) =
       [[LS ''Error processing video frame:'', LS ''Network request failed'']]
   \<and> fetch_calls (out (processVideoFrame dev env_offline labelled ''/f.jpg'')) =
       [''http://10.0.2.2:6001/predict_image'']
   \<and> audioClassification (ui (processAudioChunk dev env_offline labelled ''/f.jpg'')) = JStr ''speech''
   \<and> imageClassification_m (ui (uploadImage dev env_offline labelled_m ''/f.jpg'')) = JStr ''cat''
   \<and> audioClassification_m (ui (uploadAudio dev env_offline labelled_m ''/f.jpg'')) = JStr ''happy''
   \<and> takePhoto_result env_offline = Returns ''/tmp/photo.jpg''
   \<and> upload_error env_offline ''http://localhost:9001/predict_image'' = Some ''Network request failed''
   \<and> upload_error env_offline ''http://localhost:8001/predict'' = Some ''Network request failed''
   \<and> imageClassification_c (ui (processVideoFrame_c_rest env_offline cam_init)) = JStr []
   \<and> error_logs (out (processVideoFrame_c_rest env_offline cam_init)) =
       [[LS ''Error processing video frame:'', LS ''Network request failed'']]
   \<and> audioClassification_c (ui (processAudioChunk_c env_offline cam_init ''/f.jpg'')) = JStr []"
  using upload_failure_keeps_label
          [of env_offline dev "''Network request failed''" labelled "''/f.jpg''" labelled_m
              "''/tmp/photo.jpg''" cam_init 200]
  by (simp add: upload_error_def env_offline_def env_ok_def labelled_def labelled_m_def
      app_init_def dev_def BACKEND_URL_def cam_init_def)

section \<open>Deletion of the sample's file\<close>

lemma unlink_exactly:
  "unlink_calls (out (processVideoFrame P E w p)) =
     unlink_calls (out w) @
       (case upload_error E (BACKEND_URL P @ ''/predict_image'') of None \<Rightarrow> [p] | Some e \<Rightarrow> [])"
  "unlink_calls (out (processAudioChunk P E w p)) =
     unlink_calls (out w) @
       (case upload_error E (BACKEND_URL P @ ''/predict'') of None \<Rightarrow> [p] | Some e \<Rightarrow> [])"
  by (simp_all add: processVideoFrame_def processAudioChunk_def upload_error_def get_prop_nullish
      Let_def split: outcome.splits if_splits)

text \<open>
  C5, as the claim states it, fails: \<open>unlink\<close> is the last statement of the \<open>try\<close> block,
  so a failed upload skips it. With the network down, the extraction at time 3 of a
  selected video writes the frame, attempts the upload once and never calls \<open>unlink\<close>;
  the same holds for the audio chunk.
\<close>

theorem failed_upload_keeps_file:
  "fetch_calls (out (captureFrame dev env_offline selected 3)) = [''http://10.0.2.2:6001/predict_image'']
   \<and> unlink_calls (out (captureFrame dev env_offline selected 3)) = []
   \<and> fetch_calls (out (processAudioAtTime dev env_offline selected 3)) = [''http://10.0.2.2:6001/predict'']
   \<and> unlink_calls (out (processAudioAtTime dev env_offline selected 3)) = []"
  by (simp add: captureFrame_def captureFrame_sync_def captureFrame_rest_def processVideoFrame_def
      processAudioAtTime_def processAudioAtTime_sync_def processAudioAtTime_rest_def
      processAudioChunk_def createSubdirectories_def isSuccess_def
      env_offline_def env_ok_def selected_def app_init_def dev_def BACKEND_URL_def Let_def)

text \<open>
  C5, amended. The uploader of the video analyzer calls \<open>unlink\<close> on the sample's file
  exactly once when the upload raises no exception (the label has then been set), and not
  at all when it raises one: the file is deleted after a successful upload only.
\<close>

theorem unlink_after_successful_upload_only:
  "unlink_calls (out (processVideoFrame P E w p)) =
     unlink_calls (out w) @
       (if upload_error E (BACKEND_URL P @ ''/predict_image'') = None then [p] else [])
   \<and> unlink_calls (out (processAudioChunk P E w p)) =
     unlink_calls (out w) @
       (if upload_error E (BACKEND_URL P @ ''/predict'') = None then [p] else [])"
  by (simp add: unlink_exactly split: option.splits)

theorem unlink_after_successful_upload_only_witness:
  "upload_error env_ok (BACKEND_URL dev @ ''/predict_image'') = None
   \<and> upload_error env_offline (BACKEND_URL dev @ ''/predict'') \<noteq> None
   \<and> unlink_calls (out (processVideoFrame dev env_ok selected ''/f.jpg'')) = [''/f.jpg'']
   \<and> unlink_calls (out (processAudioChunk dev env_offline selected ''/c.wav'')) = []"
  using unlink_after_successful_upload_only [of dev env_ok selected "''/f.jpg''"]
        unlink_after_successful_upload_only [of dev env_offline selected "''/c.wav''"]
  by (simp add: upload_error_def nullish_def env_offline_def env_ok_def selected_def dev_def
      BACKEND_URL_def)

section \<open>The scheduling decision of a progress trigger\<close>

lemma onVideoProgress_pending:
  assumes "videoUri (ui w) = Some u" and "u \<noteq> []"
  shows "pending (onVideoProgress P w t) =
           pending w @ (if t - lastFrameTime (ui w) \<ge> 1 then [CaptureFrame u t] else [])
                     @ (if t - lastAudioTime (ui w) \<ge> 2.5 then [ProcessAudioAtTime u t] else [])"
  using assms
  by (simp add: onVideoProgress_def captureFrame_sync_def processAudioAtTime_sync_def Let_def)

lemma onVideoProgress_times:
  "lastFrameTime (ui (onVideoProgress P w t)) =
     (if t - lastFrameTime (ui w) \<ge> 1 then t else lastFrameTime (ui w))"
  "lastAudioTime (ui (onVideoProgress P w t)) =
     (if t - lastAudioTime (ui w) \<ge> 2.5 then t else lastAudioTime (ui w))"
  "videoUri (ui (onVideoProgress P w t)) = videoUri (ui w)"
  by (simp_all add: onVideoProgress_def captureFrame_sync_def processAudioAtTime_sync_def Let_def
      split: option.splits)

lemma processVideoFrame_session:
  "lastFrameTime (ui (processVideoFrame P E w p)) = lastFrameTime (ui w)"
  "lastAudioTime (ui (processVideoFrame P E w p)) = lastAudioTime (ui w)"
  "videoUri (ui (processVideoFrame P E w p)) = videoUri (ui w)"
  by (simp_all add: processVideoFrame_def Let_def split: outcome.splits)

lemma processAudioChunk_session:
  "lastFrameTime (ui (processAudioChunk P E w p)) = lastFrameTime (ui w)"
  "lastAudioTime (ui (processAudioChunk P E w p)) = lastAudioTime (ui w)"
  "videoUri (ui (processAudioChunk P E w p)) = videoUri (ui w)"
  by (simp_all add: processAudioChunk_def Let_def split: outcome.splits)

lemma resume_session:
  "lastFrameTime (ui (resume P E k w)) = lastFrameTime (ui w)"
  "lastAudioTime (ui (resume P E k w)) = lastAudioTime (ui w)"
  "videoUri (ui (resume P E k w)) = videoUri (ui w)"
  by (cases k; simp add: captureFrame_rest_def processAudioAtTime_rest_def Let_def split_beta
      processVideoFrame_session processAudioChunk_session split: outcome.splits)+

lemma complete_session:
  "lastFrameTime (ui (complete P E i w)) = lastFrameTime (ui w)"
  "lastAudioTime (ui (complete P E i w)) = lastAudioTime (ui w)"
  "videoUri (ui (complete P E i w)) = videoUri (ui w)"
  by (simp_all add: complete_def resume_session)

lemma step_session:
  "lastFrameTime (ui w) \<le> lastFrameTime (ui (step P w i))"
  "videoUri (ui (step P w i)) = videoUri (ui w)"
  by (cases i; simp add: onVideoProgress_times complete_session)+

lemma run_session:
  "lastFrameTime (ui w) \<le> lastFrameTime (ui (run P w ins))"
  "videoUri (ui (run P w ins)) = videoUri (ui w)"
proof -
  have "lastFrameTime (ui w) \<le> lastFrameTime (ui (foldl (step P) w ins))
        \<and> videoUri (ui (foldl (step P) w ins)) = videoUri (ui w)"
  proof (induction ins arbitrary: w)
    case Nil
    then show ?case by simp
  next
    case (Cons i ins)
    have "lastFrameTime (ui w) \<le> lastFrameTime (ui (step P w i))"
      by (rule step_session)
    also have "\<dots> \<le> lastFrameTime (ui (foldl (step P) (step P w i) ins))"
      using Cons.IH by blast
    finally show ?case
      using Cons.IH [of "step P w i"] by (simp add: step_session)
  qed
  then show "lastFrameTime (ui w) \<le> lastFrameTime (ui (run P w ins))"
    and "videoUri (ui (run P w ins)) = videoUri (ui w)"
    by (simp_all add: run_def)
qed

lemma debounce:
  assumes "videoUri (ui w) = Some u" and "u \<noteq> []"
    and "t' - lastFrameTime (ui w) \<ge> 1" and "t1 \<le> t'" and "t2 - t1 < 1"
  shows "pending (onVideoProgress P (run P (onVideoProgress P w t') ins) t2) =
           pending (run P (onVideoProgress P w t') ins) @
             (if t2 - lastAudioTime (ui (run P (onVideoProgress P w t') ins)) \<ge> 2.5
              then [ProcessAudioAtTime u t2] else [])"
    and "lastFrameTime (ui (onVideoProgress P (run P (onVideoProgress P w t') ins) t2)) =
           lastFrameTime (ui (run P (onVideoProgress P w t') ins))"
proof -
  let ?w2 = "run P (onVideoProgress P w t') ins"
  have "lastFrameTime (ui (onVideoProgress P w t')) = t'"
    using assms(3) by (simp add: onVideoProgress_times)
  then have "t' \<le> lastFrameTime (ui ?w2)"
    using run_session(1) [of "onVideoProgress P w t'" P ins] by simp
  then have no: "\<not> t2 - lastFrameTime (ui ?w2) \<ge> 1"
    using assms(4,5) by simp
  have v: "videoUri (ui ?w2) = Some u"
    using assms(1) by (simp add: run_session onVideoProgress_times)
  show "pending (onVideoProgress P ?w2 t2) =
          pending ?w2 @ (if t2 - lastAudioTime (ui ?w2) \<ge> 2.5 then [ProcessAudioAtTime u t2] else [])"
    using no onVideoProgress_pending [OF v assms(2), of P t2] by simp
  show "lastFrameTime (ui (onVideoProgress P ?w2 t2)) = lastFrameTime (ui ?w2)"
    using no by (simp add: onVideoProgress_times)
qed

text \<open>
  C3. With a video selected (the player, and so the handler, exists only then), a
  trigger at time \<open>t\<close> starts a frame extraction exactly when
  \<open>t - lastFrameTime \<ge> 1\<close> and an audio extraction exactly when
  \<open>t - lastAudioTime \<ge> 2.5\<close>. When it starts one, the last-sampled time of that modality
  is \<open>t\<close> as soon as the handler returns, while the extraction is still pending. From
  \<open>lastFrameTime = 0\<close>, a trigger at 0 starts no frame extraction and a trigger at 1 starts
  one. Debounce: after a frame extraction has started at a time \<open>t'\<close> with \<open>t1 \<le> t'\<close>,
  and after any further triggers and completions, a trigger at \<open>t2\<close> with \<open>t2 - t1 < 1\<close>
  starts no frame extraction.
\<close>

theorem progress_thresholds:
  assumes "videoUri (ui w) = Some u" and "u \<noteq> []"
  shows "pending (onVideoProgress P w t) =
           pending w @ (if t - lastFrameTime (ui w) \<ge> 1 then [CaptureFrame u t] else [])
                     @ (if t - lastAudioTime (ui w) \<ge> 2.5 then [ProcessAudioAtTime u t] else [])
       \<and> lastFrameTime (ui (onVideoProgress P w t)) =
           (if t - lastFrameTime (ui w) \<ge> 1 then t else lastFrameTime (ui w))
       \<and> lastAudioTime (ui (onVideoProgress P w t)) =
           (if t - lastAudioTime (ui w) \<ge> 2.5 then t else lastAudioTime (ui w))
       \<and> (lastFrameTime (ui w) = 0 \<longrightarrow>
            pending (onVideoProgress P w 0) =
              pending w @ (if 0 - lastAudioTime (ui w) \<ge> 2.5 then [ProcessAudioAtTime u 0] else [])
          \<and> lastFrameTime (ui (onVideoProgress P w 0)) = 0
          \<and> pending (onVideoProgress P w 1) =
              pending w @ [CaptureFrame u 1]
                        @ (if 1 - lastAudioTime (ui w) \<ge> 2.5 then [ProcessAudioAtTime u 1] else [])
          \<and> lastFrameTime (ui (onVideoProgress P w 1)) = 1)
       \<and> (t' - lastFrameTime (ui w) \<ge> 1 \<and> t1 \<le> t' \<and> t2 - t1 < 1 \<longrightarrow>
            pending (onVideoProgress P (run P (onVideoProgress P w t') ins) t2) =
              pending (run P (onVideoProgress P w t') ins) @
                (if t2 - lastAudioTime (ui (run P (onVideoProgress P w t') ins)) \<ge> 2.5
                 then [ProcessAudioAtTime u t2] else [])
          \<and> lastFrameTime (ui (onVideoProgress P (run P (onVideoProgress P w t') ins) t2)) =
              lastFrameTime (ui (run P (onVideoProgress P w t') ins)))"
proof (intro conjI impI)
  show "pending (onVideoProgress P w t) =
          pending w @ (if t - lastFrameTime (ui w) \<ge> 1 then [CaptureFrame u t] else [])
                    @ (if t - lastAudioTime (ui w) \<ge> 2.5 then [ProcessAudioAtTime u t] else [])"
    using assms by (rule onVideoProgress_pending)
next
  assume "lastFrameTime (ui w) = 0"
  then show "pending (onVideoProgress P w 0) =
      pending w @ (if 0 - lastAudioTime (ui w) \<ge> 2.5 then [ProcessAudioAtTime u 0] else [])"
    using onVideoProgress_pending [OF assms, of P 0] by simp
next
  assume "lastFrameTime (ui w) = 0"
  then show "pending (onVideoProgress P w 1) =
      pending w @ [CaptureFrame u 1]
                @ (if 1 - lastAudioTime (ui w) \<ge> 2.5 then [ProcessAudioAtTime u 1] else [])"
    using onVideoProgress_pending [OF assms, of P 1] by simp
next
  assume h: "t' - lastFrameTime (ui w) \<ge> 1 \<and> t1 \<le> t' \<and> t2 - t1 < 1"
  then show "pending (onVideoProgress P (run P (onVideoProgress P w t') ins) t2) =
      pending (run P (onVideoProgress P w t') ins) @
        (if t2 - lastAudioTime (ui (run P (onVideoProgress P w t') ins)) \<ge> 2.5
         then [ProcessAudioAtTime u t2] else [])"
    using debounce(1) [OF assms, of t' t1 t2 P ins] by blast
  from h show "lastFrameTime (ui (onVideoProgress P (run P (onVideoProgress P w t') ins) t2)) =
      lastFrameTime (ui (run P (onVideoProgress P w t') ins))"
    using debounce(2) [OF assms, of t' t1 t2 P ins] by blast
qed (simp_all add: onVideoProgress_times)

theorem progress_thresholds_witness:
  "videoUri (ui selected) = Some ''file:///v.mp4''
   \<and> lastFrameTime (ui selected) = 0
   \<and> pending (onVideoProgress dev selected 3) =
       [CaptureFrame ''file:///v.mp4'' 3, ProcessAudioAtTime ''file:///v.mp4'' 3]
   \<and> lastFrameTime (ui (onVideoProgress dev selected 3)) = 3
   \<and> pending (onVideoProgress dev selected 0) = []
   \<and> pending (onVideoProgress dev selected 1) = [CaptureFrame ''file:///v.mp4'' 1]
   \<and> (1::real) - lastFrameTime (ui selected) \<ge> 1 \<and> (1::real) \<le> 1 \<and> (1.9::real) - 1 < 1
   \<and> pending (onVideoProgress dev (run dev (onVideoProgress dev selected 1) [Progress 1.5]) 1.9) =
       [CaptureFrame ''file:///v.mp4'' 1]
   \<and> lastFrameTime (ui (onVideoProgress dev (run dev (onVideoProgress dev selected 1) [Progress 1.5]) 1.9)) = 1"
  using progress_thresholds [of selected "''file:///v.mp4''" dev 3 1 1 "1.9" "[Progress 1.5]"]
  by (simp add: selected_def app_init_def run_def onVideoProgress_def captureFrame_sync_def
      processAudioAtTime_sync_def Let_def)

section \<open>The flag \<open>isProcessing\<close> and the scheduling decision\<close>

lemma flag_ignored:
  "pending (onVideoProgress P (setIsProcessing b w) t) = pending (onVideoProgress P w t)"
  "lastFrameTime (ui (onVideoProgress P (setIsProcessing b w) t)) =
     lastFrameTime (ui (onVideoProgress P w t))"
  "lastAudioTime (ui (onVideoProgress P (setIsProcessing b w) t)) =
     lastAudioTime (ui (onVideoProgress P w t))"
  by (simp_all add: onVideoProgress_def captureFrame_sync_def processAudioAtTime_sync_def Let_def
      split: option.splits)

lemma flag_set:
  assumes "videoUri (ui w) = Some u" and "u \<noteq> []"
    and "t - lastFrameTime (ui w) \<ge> 1 \<or> t - lastAudioTime (ui w) \<ge> 2.5"
  shows "isProcessing (ui (onVideoProgress P w t))"
  using assms
  by (auto simp add: onVideoProgress_def captureFrame_sync_def processAudioAtTime_sync_def Let_def)

lemma resume_pending: "pending (resume P E k w) = pending w"
  by (cases k; simp add: captureFrame_rest_def processAudioAtTime_rest_def Let_def split_beta
      processVideoFrame_keeps processAudioChunk_keeps split: outcome.splits)

lemma complete_clears:
  assumes "i < length (pending w)"
  shows "isProcessing (ui (complete P E i w)) = False"
    and "pending (complete P E i w) = take i (pending w) @ drop (Suc i) (pending w)"
  using assms by (simp_all add: complete_def resume_clears resume_pending)

text \<open>
  C2, as the claim states it, fails: no function of the component reads \<open>isProcessing\<close>
  (only the button does). From the state with a video selected, the trigger at 3 passes
  both thresholds: the frame extraction is started and sets the flag, and the audio
  extraction is started all the same. The next trigger, at 4, starts a second frame
  extraction while the flag is set and the first two sequences are still pending.
\<close>

theorem extractions_start_while_processing:
  "isProcessing (ui (onVideoProgress dev selected 3))
   \<and> pending (onVideoProgress dev selected 3) =
       [CaptureFrame ''file:///v.mp4'' 3, ProcessAudioAtTime ''file:///v.mp4'' 3]
   \<and> pending (onVideoProgress dev (onVideoProgress dev selected 3) 4) =
       [CaptureFrame ''file:///v.mp4'' 3, ProcessAudioAtTime ''file:///v.mp4'' 3,
        CaptureFrame ''file:///v.mp4'' 4]"
  by (simp add: onVideoProgress_def captureFrame_sync_def processAudioAtTime_sync_def Let_def
      selected_def app_init_def)

text \<open>
  C2, amended. The extractions a progress trigger starts, and the last-sampled times it
  sets, do not depend on \<open>isProcessing\<close>. When both thresholds pass on the same trigger
  (video selected), the frame extraction is started first, the audio extraction second,
  both are pending afterwards and the flag is set. The flag is cleared when any pending
  sequence completes, whether or not others are still pending.
\<close>

theorem scheduling_ignores_flag:
  "pending (onVideoProgress P (setIsProcessing b w) t) = pending (onVideoProgress P w t)
   \<and> lastFrameTime (ui (onVideoProgress P (setIsProcessing b w) t)) =
       lastFrameTime (ui (onVideoProgress P w t))
   \<and> lastAudioTime (ui (onVideoProgress P (setIsProcessing b w) t)) =
       lastAudioTime (ui (onVideoProgress P w t))
   \<and> (videoUri (ui w) = Some u \<and> u \<noteq> [] \<and> t - lastFrameTime (ui w) \<ge> 1
        \<and> t - lastAudioTime (ui w) \<ge> 2.5 \<longrightarrow>
          pending (onVideoProgress P w t) = pending w @ [CaptureFrame u t, ProcessAudioAtTime u t]
        \<and> isProcessing (ui (onVideoProgress P w t)))
   \<and> (i < length (pending w) \<longrightarrow>
          isProcessing (ui (complete P E i w)) = False
        \<and> pending (complete P E i w) = take i (pending w) @ drop (Suc i) (pending w))"
  by (intro conjI impI)
     (simp_all add: flag_ignored flag_set complete_clears onVideoProgress_pending)

theorem scheduling_ignores_flag_witness:
  "videoUri (ui selected) = Some ''file:///v.mp4''
   \<and> (3::real) - lastFrameTime (ui selected) \<ge> 1 \<and> (3::real) - lastAudioTime (ui selected) \<ge> 2.5
   \<and> pending (onVideoProgress dev (setIsProcessing True selected) 3) =
       [CaptureFrame ''file:///v.mp4'' 3, ProcessAudioAtTime ''file:///v.mp4'' 3]
   \<and> (0::nat) < length (pending (onVideoProgress dev selected 3))
   \<and> isProcessing (ui (complete dev env_ok 0 (onVideoProgress dev selected 3))) = False
   \<and> pending (complete dev env_ok 0 (onVideoProgress dev selected 3)) =
       [ProcessAudioAtTime ''file:///v.mp4'' 3]"
  using scheduling_ignores_flag [of dev True selected 3 "''file:///v.mp4''" 0 env_ok]
        scheduling_ignores_flag [of dev True "onVideoProgress dev selected 3" 3 "''file:///v.mp4''" 0 env_ok]
  by (simp add: selected_def app_init_def)

section \<open>Selecting a video\<close>

lemma pickVideo_selects:
  assumes "snd (requestPermissions P E w)"
      and "pick_result E = Returns (r # rs)"
      and "prefix ''content://'' (uri r) \<longrightarrow> copy_result E (uri r) = Returns ()"
  shows "ui (pickVideo P E w) =
           (ui w)\<lparr>videoUri := Some (if prefix ''content://'' (uri r)
                                   then ''file://'' @ CacheDir P @ ''/input_video_temp.mp4''
                                   else uri r),
                  processingStatus := ''Video selected: '' @ name r,
                  audioClassification := JStr [], imageClassification := JStr [],
                  lastFrameTime := 0, lastAudioTime := 0\<rparr>"
  using assms
  by (auto simp add: pickVideo_def split_beta Let_def copyContentUriToLocal_def requestPermissions_keeps)

text \<open>
  C6. When a video is selected (the permission is there, the picker returns a file and,
  for a \<open>content://\<close> URI, the copy succeeds), \<open>pickVideo\<close> leaves \<open>lastFrameTime\<close> and
  \<open>lastAudioTime\<close> at 0 and both labels empty, whatever the state was before; selecting
  again from the state so obtained leaves the state hooks as they are.
\<close>

theorem pickVideo_resets:
  assumes "snd (requestPermissions P E w)"
      and "pick_result E = Returns (r # rs)"
      and "prefix ''content://'' (uri r) \<longrightarrow> copy_result E (uri r) = Returns ()"
  shows "lastFrameTime (ui (pickVideo P E w)) = 0
       \<and> lastAudioTime (ui (pickVideo P E w)) = 0
       \<and> audioClassification (ui (pickVideo P E w)) = JStr []
       \<and> imageClassification (ui (pickVideo P E w)) = JStr []
       \<and> ui (pickVideo P E (pickVideo P E w)) = ui (pickVideo P E w)"
proof -
  have again: "snd (requestPermissions P E (pickVideo P E w))"
    using assms(1) requestPermissions_same by blast
  show ?thesis
    by (simp add: pickVideo_selects [OF assms] pickVideo_selects [OF again assms(2,3)])
qed

theorem pickVideo_resets_witness:
  "snd (requestPermissions dev env_ok played)
   \<and> pick_result env_ok = Returns [\<lparr>uri = ''file:///v.mp4'', name = ''v.mp4''\<rparr>]
   \<and> \<not> prefix ''content://'' ''file:///v.mp4''
   \<and> lastFrameTime (ui played) = 7 \<and> lastAudioTime (ui played) = 5
   \<and> lastFrameTime (ui (pickVideo dev env_ok played)) = 0
   \<and> lastAudioTime (ui (pickVideo dev env_ok played)) = 0
   \<and> audioClassification (ui (pickVideo dev env_ok played)) = JStr []
   \<and> imageClassification (ui (pickVideo dev env_ok played)) = JStr []
   \<and> ui (pickVideo dev env_ok (pickVideo dev env_ok played)) = ui (pickVideo dev env_ok played)"
  using pickVideo_resets [of dev env_ok played "\<lparr>uri = ''file:///v.mp4'', name = ''v.mp4''\<rparr>" "[]"]
  by (simp add: requestPermissions_result dev_def env_ok_def played_def)

section \<open>The permission request\<close>

lemma pickVideo_denied:
  assumes "\<not> snd (requestPermissions P E w)"
  shows "pickVideo P E w =
           alert ''Permission Denied'' ''Storage permission is required to select videos.''
             (fst (requestPermissions P E w))"
  using assms by (simp add: pickVideo_def split_beta)

lemma pickImage_denied:
  assumes "\<not> snd (requestPermissions_m P E Image w)"
  shows "pickImage P E w =
           alert ''Permission Denied'' ''Storage permission is required to select images.''
             (fst (requestPermissions_m P E Image w))"
  using assms by (simp add: pickImage_def split_beta)

lemma pickAudio_denied:
  assumes "\<not> snd (requestPermissions_m P E Audio w)"
  shows "pickAudio P E w =
           alert ''Permission Denied'' ''Storage permission is required to select audio.''
             (fst (requestPermissions_m P E Audio w))"
  using assms by (simp add: pickAudio_def split_beta)

lemma requestPermissions_logs:
  "OS P = ''android'' \<Longrightarrow> Version P \<ge> 33 \<Longrightarrow>
     permission_request E ''READ_MEDIA_VIDEO'' = Throws e \<Longrightarrow>
       error_logs (out (fst (requestPermissions P E w))) =
         error_logs (out w) @ [[LS ''Permission error:'', LS e]]"
  "OS P = ''android'' \<Longrightarrow> \<not> Version P \<ge> 33 \<Longrightarrow>
     permission_requestMultiple E = Throws e \<Longrightarrow>
       error_logs (out (fst (requestPermissions P E w))) =
         error_logs (out w) @ [[LS ''Permission error:'', LS e]]"
  by (simp_all add: requestPermissions_def Let_def)

lemma requestPermissions_m_logs:
  assumes "OS P = ''android''"
    and "permission_request E
          (if Version P \<ge> 33
           then (if mt = Image then ''READ_MEDIA_IMAGES'' else ''READ_MEDIA_AUDIO'')
           else ''READ_EXTERNAL_STORAGE'') = Throws e"
  shows "error_logs (out (fst (requestPermissions_m P E mt w))) =
           error_logs (out w) @ [[LS ''Permission error:'', LS e]]"
  using assms by (simp add: requestPermissions_m_def Let_def split: if_splits)

lemma requestPermissions_elsewhere:
  assumes "OS P \<noteq> ''android''"
  shows "requestPermissions P E w = (w, True)"
    and "requestPermissions_m P E mt w = (w, True)"
  using assms by (simp_all add: requestPermissions_def requestPermissions_m_def)

text \<open>
  C9. \<open>requestPermissions\<close> of the video analyzer and of the media analyzer return true
  only when the permission API is not called at all (on a platform other than Android the
  function returns at once) or answers with an explicit grant of every permission asked;
  a denial, a permanent denial and an exception all give false. When the result is false
  the caller (\<open>pickVideo\<close>, \<open>pickImage\<close>, \<open>pickAudio\<close>) changes no state hook, leaves
  nothing pending and calls neither the picker, nor the engine, nor the backend. An
  exception of the API is logged once.
\<close>

theorem permission_fail_closed:
  "snd (requestPermissions P E w) =
     (OS P \<noteq> ''android'' \<or>
      (if Version P \<ge> 33 then permission_request E ''READ_MEDIA_VIDEO'' = Returns GRANTED
       else (\<exists>r. permission_requestMultiple E = Returns r
                 \<and> r ''READ_EXTERNAL_STORAGE'' = GRANTED
                 \<and> r ''WRITE_EXTERNAL_STORAGE'' = GRANTED)))
   \<and> snd (requestPermissions_m P E mt mw) =
     (OS P \<noteq> ''android'' \<or>
      permission_request E
        (if Version P \<ge> 33
         then (if mt = Image then ''READ_MEDIA_IMAGES'' else ''READ_MEDIA_AUDIO'')
         else ''READ_EXTERNAL_STORAGE'') = Returns GRANTED)
   \<and> (OS P \<noteq> ''android'' \<longrightarrow>
        requestPermissions P E w = (w, True) \<and> requestPermissions_m P E mt mw = (mw, True))
   \<and> (\<not> snd (requestPermissions P E w) \<longrightarrow>
        ui (pickVideo P E w) = ui w
      \<and> pending (pickVideo P E w) = pending w
      \<and> pick_calls (out (pickVideo P E w)) = pick_calls (out w)
      \<and> ffmpeg_calls (out (pickVideo P E w)) = ffmpeg_calls (out w)
      \<and> fetch_calls (out (pickVideo P E w)) = fetch_calls (out w))
   \<and> (\<not> snd (requestPermissions_m P E Image mw) \<longrightarrow>
        ui (pickImage P E mw) = ui mw
      \<and> pending (pickImage P E mw) = pending mw
      \<and> pick_calls (out (pickImage P E mw)) = pick_calls (out mw)
      \<and> fetch_calls (out (pickImage P E mw)) = fetch_calls (out mw))
   \<and> (\<not> snd (requestPermissions_m P E Audio mw) \<longrightarrow>
        ui (pickAudio P E mw) = ui mw
      \<and> pending (pickAudio P E mw) = pending mw
      \<and> pick_calls (out (pickAudio P E mw)) = pick_calls (out mw)
      \<and> fetch_calls (out (pickAudio P E mw)) = fetch_calls (out mw))
   \<and> (OS P = ''android'' \<and> Version P \<ge> 33
        \<and> permission_request E ''READ_MEDIA_VIDEO'' = Throws e \<longrightarrow>
        error_logs (out (fst (requestPermissions P E w))) =
          error_logs (out w) @ [[LS ''Permission error:'', LS e]])
   \<and> (OS P = ''android'' \<and> \<not> Version P \<ge> 33 \<and> permission_requestMultiple E = Throws e \<longrightarrow>
        error_logs (out (fst (requestPermissions P E w))) =
          error_logs (out w) @ [[LS ''Permission error:'', LS e]])
   \<and> (OS P = ''android''
        \<and> permission_request E
             (if Version P \<ge> 33
              then (if mt = Image then ''READ_MEDIA_IMAGES'' else ''READ_MEDIA_AUDIO'')
              else ''READ_EXTERNAL_STORAGE'') = Throws e \<longrightarrow>
        error_logs (out (fst (requestPermissions_m P E mt mw))) =
          error_logs (out mw) @ [[LS ''Permission error:'', LS e]])"
proof (intro conjI impI)
  show "snd (requestPermissions P E w) =
          (OS P \<noteq> ''android'' \<or>
           (if Version P \<ge> 33 then permission_request E ''READ_MEDIA_VIDEO'' = Returns GRANTED
            else (\<exists>r. permission_requestMultiple E = Returns r
                      \<and> r ''READ_EXTERNAL_STORAGE'' = GRANTED
                      \<and> r ''WRITE_EXTERNAL_STORAGE'' = GRANTED)))"
    by (rule requestPermissions_result)
  show "snd (requestPermissions_m P E mt mw) =
          (OS P \<noteq> ''android'' \<or>
           permission_request E
             (if Version P \<ge> 33
              then (if mt = Image then ''READ_MEDIA_IMAGES'' else ''READ_MEDIA_AUDIO'')
              else ''READ_EXTERNAL_STORAGE'') = Returns GRANTED)"
    by (rule requestPermissions_m_result)
next
  assume "OS P = ''android'' \<and> Version P \<ge> 33
          \<and> permission_request E ''READ_MEDIA_VIDEO'' = Throws e"
  then show "error_logs (out (fst (requestPermissions P E w))) =
      error_logs (out w) @ [[LS ''Permission error:'', LS e]]"
    using requestPermissions_logs(1) by blast
next
  assume "OS P = ''android'' \<and> \<not> Version P \<ge> 33 \<and> permission_requestMultiple E = Throws e"
  then show "error_logs (out (fst (requestPermissions P E w))) =
      error_logs (out w) @ [[LS ''Permission error:'', LS e]]"
    using requestPermissions_logs(2) by blast
next
  assume "OS P = ''android''
          \<and> permission_request E
               (if Version P \<ge> 33
                then (if mt = Image then ''READ_MEDIA_IMAGES'' else ''READ_MEDIA_AUDIO'')
                else ''READ_EXTERNAL_STORAGE'') = Throws e"
  then show "error_logs (out (fst (requestPermissions_m P E mt mw))) =
      error_logs (out mw) @ [[LS ''Permission error:'', LS e]]"
    using requestPermissions_m_logs by blast
qed (simp_all add: pickVideo_denied pickImage_denied pickAudio_denied
       requestPermissions_keeps requestPermissions_m_keeps requestPermissions_elsewhere)

theorem permission_fail_closed_witness:
  "OS dev = ''android'' \<and> OS dev_old = ''android'' \<and> OS dev_ios \<noteq> ''android''
   \<and> requestPermissions dev_ios env_denied played = (played, True)
   \<and> \<not> snd (requestPermissions dev env_denied played)
   \<and> ui (pickVideo dev env_denied played) = ui played
   \<and> pick_calls (out (pickVideo dev env_denied played)) = []
   \<and> \<not> snd (requestPermissions_m dev env_denied Image media_init)
   \<and> pick_calls (out (pickImage dev env_denied media_init)) = []
   \<and> \<not> snd (requestPermissions_m dev env_denied Audio media_init)
   \<and> pick_calls (out (pickAudio dev env_denied media_init)) = []
   \<and> permission_request env_permission_throws ''READ_MEDIA_VIDEO'' = Throws ''no activity''
   \<and> \<not> snd (requestPermissions dev env_permission_throws played)
   \<and> error_logs (out (fst (requestPermissions dev env_permission_throws played))) =
       [[LS ''Permission error:'', LS ''no activity'']]
   \<and> permission_request env_permission_throws ''READ_MEDIA_IMAGES'' = Throws ''no activity''
   \<and> error_logs (out (fst (requestPermissions_m dev env_permission_throws Image media_init))) =
       [[LS ''Permission error:'', LS ''no activity'']]
   \<and> \<not> Version dev_old \<ge> 33
   \<and> permission_requestMultiple env_permission_throws = Throws ''no activity''
   \<and> \<not> snd (requestPermissions dev_old env_permission_throws played)
   \<and> error_logs (out (fst (requestPermissions dev_old env_permission_throws played))) =
       [[LS ''Permission error:'', LS ''no activity'']]"
  using permission_fail_closed [of dev env_denied played Image media_init "''no activity''"]
        permission_fail_closed [of dev env_denied played Audio media_init "''no activity''"]
        permission_fail_closed [of dev env_permission_throws played Image media_init "''no activity''"]
        permission_fail_closed [of dev_old env_permission_throws played Image media_init "''no activity''"]
        permission_fail_closed [of dev_ios env_denied played Image media_init "''no activity''"]
  by (simp add: dev_def dev_old_def dev_ios_def env_denied_def env_permission_throws_def env_ok_def
      played_def media_init_def)

section \<open>The timers of the camera screen\<close>

lemma permission_effect_android:
  assumes "OS P = ''android''"
  shows "hasPermission (ui (permission_effect P E w)) = hasPermission (ui w)"
    and "intervals (ui (permission_effect P E w)) = intervals (ui w)"
  using assms by (simp_all add: permission_effect_def Let_def split: outcome.splits)

lemma timers_effect_not_granted: "\<not> hasPermission (ui w) \<Longrightarrow> timers_effect w = w"
  by (simp add: timers_effect_def)

text \<open>
  C4 holds of what the code sets out to do and fails by a slip of the first effect. On an
  Android device, from the initial state of the component, the user grants both the
  camera and the microphone: the permissions are confirmed. The effect has stored them
  as the boolean \<open>true\<close> and compares them with the string \<open>'granted'\<close>, so
  \<open>setHasPermission(true)\<close> does not run: \<open>hasPermission\<close> stays false, loading ends, and
  the effect that depends on \<open>hasPermission\<close> registers no timer, before the answer and
  after it: no timer attempts a frame capture or an audio capture.
\<close>

theorem confirmed_permissions_start_no_timer:
  "OS dev = ''android''
   \<and> (case permission_requestMultiple env_ok of
         Throws e \<Rightarrow> False
       | Returns granted \<Rightarrow> granted ''CAMERA'' = GRANTED \<and> granted ''RECORD_AUDIO'' = GRANTED)
   \<and> hasPermission (ui (permission_effect dev env_ok cam_init)) = False
   \<and> isLoading (ui (permission_effect dev env_ok cam_init)) = False
   \<and> out (permission_effect dev env_ok cam_init) = [PermissionRequest [''CAMERA'', ''RECORD_AUDIO'']]
   \<and> timers_effect cam_init = cam_init
   \<and> timers_effect (permission_effect dev env_ok cam_init) = permission_effect dev env_ok cam_init
   \<and> intervals (ui (timers_effect (permission_effect dev env_ok cam_init))) = []"
  by (simp add: permission_effect_def timers_effect_def dev_def env_ok_def cam_init_def Let_def)

end
